theory Spec2Isabelle
  imports Main "HOL-Library.Word"
begin

section \<open>Go values\<close>

text \<open>
  A Go \<open>int\<close> is a 64-bit two's complement integer, a \<open>[]byte\<close> a list of octets, and an
  \<open>error\<close> is represented by its \<open>Error()\<close> text. The HTTP status codes are the numbers
  of \<open>net/http\<close>.
\<close>

type_synonym go_int = "64 word"
type_synonym byte = "8 word"
type_synonym error = string

abbreviation StatusOK :: nat where "StatusOK \<equiv> 200"
abbreviation StatusBadRequest :: nat where "StatusBadRequest \<equiv> 400"
abbreviation StatusInternalServerError :: nat where "StatusInternalServerError \<equiv> 500"

text \<open>A Go call either returns or panics.\<close>

datatype 'a go_result = Panicked | Returned 'a

section \<open>The gnark frontend, as far as \<open>internal/circuit/addtion.go\<close> uses it\<close>

text \<open>
  \<open>ecc.BN254.ScalarField()\<close>: the order of the scalar field of BN254.
\<close>

definition BN254_ScalarField :: int where
  "BN254_ScalarField =
     21888242871839275222246405745257275088548364400416034343698204186575808495617"

text \<open>
  \<open>frontend.Variable\<close> is \<open>interface{}\<close>. In this program it holds nothing (\<open>nil\<close>), a Go
  \<open>int\<close> (in an assignment), or, while the circuit is compiled, a wire of the
  constraint system or a sum built by \<open>api.Add\<close>.
\<close>

datatype Variable = VNil | VInt go_int | VWire nat | VAdd Variable Variable

text \<open>
  \<open>type AdditionCircuit struct\<close>: \<open>A\<close> and \<open>B\<close> are tagged \<open>gnark:",secret"\<close>,
  \<open>Sum\<close> is tagged \<open>gnark:",public"\<close>.
\<close>

record AdditionCircuit =
  A :: Variable
  B :: Variable
  Sum :: Variable

text \<open>\<open>var circuit AdditionCircuit\<close>: the zero value.\<close>

definition zero_circuit :: AdditionCircuit where
  "zero_circuit = \<lparr>A = VNil, B = VNil, Sum = VNil\<rparr>"

text \<open>
  The \<open>frontend.API\<close> handed to \<open>Define\<close> is the builder of the constraint system:
  \<open>api.Add\<close> returns the sum as a new variable, \<open>api.AssertIsEqual\<close> records one
  equality constraint.
\<close>

record builder =
  constraints :: "(Variable \<times> Variable) list"

definition api_Add :: "Variable \<Rightarrow> Variable \<Rightarrow> Variable" where
  "api_Add i1 i2 = VAdd i1 i2"

definition api_AssertIsEqual :: "builder \<Rightarrow> Variable \<Rightarrow> Variable \<Rightarrow> builder" where
  "api_AssertIsEqual api i1 i2 = api\<lparr>constraints := constraints api @ [(i1, i2)]\<rparr>"

text \<open>
  \<open>func (circuit *AdditionCircuit) Define(api frontend.API) error\<close>: asserts
  \<open>A + B = Sum\<close> and returns \<open>nil\<close>.
\<close>

definition Define :: "AdditionCircuit \<Rightarrow> builder \<Rightarrow> error option \<times> builder" where
  "Define circuit api =
     (None, api_AssertIsEqual api (api_Add (A circuit) (B circuit)) (Sum circuit))"

text \<open>
  The compiled constraint system: the field, the number of public and of secret
  variables, and the recorded constraints over wires. Wire \<open>0\<close> is the constant one, the
  public variables follow in declaration order, then the secret ones.
\<close>

record constraint_system =
  ccs_field :: int
  nbPublic :: nat
  nbSecret :: nat
  ccs_constraints :: "(Variable \<times> Variable) list"

text \<open>
  \<open>frontend.Compile(field, r1cs.NewBuilder, &circuit)\<close>: the fields of the circuit are
  replaced by wires according to their tags (whatever they held before), then \<open>Define\<close>
  runs against a fresh builder; an error of \<open>Define\<close> is the error of \<open>Compile\<close>.
\<close>

definition frontend_Compile :: "int \<Rightarrow> AdditionCircuit \<Rightarrow> error + constraint_system" where
  "frontend_Compile field circuit =
     (let c = circuit\<lparr>Sum := VWire 1, A := VWire 2, B := VWire 3\<rparr>;
          (err, bld) = Define c \<lparr>constraints = []\<rparr>
      in case err of
           Some e \<Rightarrow> Inl e
         | None \<Rightarrow> Inr \<lparr>ccs_field = field, nbPublic = 1, nbSecret = 2,
                         ccs_constraints = constraints bld\<rparr>)"

text \<open>
  A witness is the vector of field elements assigned to the public variables, followed by
  the one assigned to the secret variables; a public witness has no secret part.
\<close>

record witness =
  w_public :: "int list"
  w_secret :: "int list"

text \<open>
  The value of an assigned \<open>frontend.Variable\<close> as a field element. A Go \<open>int\<close> is set
  with \<open>SetInt64\<close>: a negative \<open>v\<close> becomes \<open>field - |v|\<close>, which is \<open>v mod field\<close>. A
  variable left \<open>nil\<close> has no value.
\<close>

fun leaf_value :: "int \<Rightarrow> Variable \<Rightarrow> error + int" where
  "leaf_value field VNil = Inl ''missing assignment''"
| "leaf_value field (VInt v) = Inr (sint v mod field)"
| "leaf_value field (VWire i) = Inl ''unsupported type''"
| "leaf_value field (VAdd x y) = Inl ''unsupported type''"

text \<open>
  \<open>frontend.NewWitness(&assignment, field, opts...)\<close>; \<open>publicOnly\<close> is the option
  \<open>frontend.PublicOnly()\<close>, under which the secret fields are not read at all.
\<close>

definition frontend_NewWitness :: "AdditionCircuit \<Rightarrow> int \<Rightarrow> bool \<Rightarrow> error + witness" where
  "frontend_NewWitness assignment field publicOnly =
     (case leaf_value field (Sum assignment) of
        Inl err \<Rightarrow> Inl err
      | Inr s \<Rightarrow>
          if publicOnly then Inr \<lparr>w_public = [s], w_secret = []\<rparr>
          else (case leaf_value field (A assignment) of
                  Inl err \<Rightarrow> Inl err
                | Inr a \<Rightarrow>
                    (case leaf_value field (B assignment) of
                       Inl err \<Rightarrow> Inl err
                     | Inr b \<Rightarrow> Inr \<lparr>w_public = [s], w_secret = [a, b]\<rparr>)))"

text \<open>
  Solving a constraint system with a witness: every wire gets its value from the vector,
  sums are taken in the field, and every recorded equality must hold. The vector must have
  the dimensions of the system and hold field elements.
\<close>

fun eval_var :: "int \<Rightarrow> witness \<Rightarrow> Variable \<Rightarrow> int option" where
  "eval_var p w VNil = None"
| "eval_var p w (VInt v) = Some (sint v mod p)"
| "eval_var p w (VWire i) =
     (if i = 0 then Some (1 mod p)
      else if i \<le> length (w_public w) then Some (w_public w ! (i - 1))
      else if i \<le> length (w_public w) + length (w_secret w)
        then Some (w_secret w ! (i - 1 - length (w_public w)))
      else None)"
| "eval_var p w (VAdd x y) =
     (case (eval_var p w x, eval_var p w y) of
        (Some a, Some b) \<Rightarrow> Some ((a + b) mod p)
      | _ \<Rightarrow> None)"

definition holds :: "int \<Rightarrow> witness \<Rightarrow> Variable \<times> Variable \<Rightarrow> bool" where
  "holds p w c =
     (case (eval_var p w (fst c), eval_var p w (snd c)) of
        (Some l, Some r) \<Rightarrow> l = r
      | _ \<Rightarrow> False)"

definition field_elems :: "int \<Rightarrow> int list \<Rightarrow> bool" where
  "field_elems p xs = list_all (\<lambda>x. 0 \<le> x \<and> x < p) xs"

definition solves :: "constraint_system \<Rightarrow> witness \<Rightarrow> bool" where
  "solves ccs w \<longleftrightarrow>
     length (w_public w) = nbPublic ccs \<and>
     length (w_secret w) = nbSecret ccs \<and>
     field_elems (ccs_field ccs) (w_public w) \<and>
     field_elems (ccs_field ccs) (w_secret w) \<and>
     list_all (holds (ccs_field ccs) w) (ccs_constraints ccs)"

section \<open>The groth16 backend\<close>

text \<open>
  The proof system is a collaborator of this program: its five operations are a parameter.
  \<open>Setup\<close> and \<open>Prove\<close> draw randomness, which is their last argument here. \<open>Verify\<close>
  returns \<open>nil\<close> (\<open>None\<close>) for an accepted proof and an error otherwise.
\<close>

record ('pk, 'vk, 'proof) groth16 =
  groth16_Setup :: "constraint_system \<Rightarrow> nat \<Rightarrow> error + ('pk \<times> 'vk)"
  groth16_Prove :: "constraint_system \<Rightarrow> 'pk \<Rightarrow> witness \<Rightarrow> nat \<Rightarrow> error + 'proof"
  groth16_Verify :: "'proof \<Rightarrow> 'vk \<Rightarrow> witness \<Rightarrow> error option"
  proof_WriteTo :: "'proof \<Rightarrow> error + byte list"
  proof_ReadFrom :: "byte list \<Rightarrow> error + 'proof"

section \<open>Package \<open>circuit\<close>\<close>

text \<open>
  \<open>func Setup() (groth16.ProvingKey, groth16.VerifyingKey, error)\<close>. The keys are
  interface values: \<open>None\<close> is \<open>nil\<close>.
\<close>

definition circuit_Setup ::
  "('pk, 'vk, 'proof) groth16 \<Rightarrow> nat \<Rightarrow> 'pk option \<times> 'vk option \<times> error option" where
  "circuit_Setup be seed =
     (case frontend_Compile BN254_ScalarField zero_circuit of
        Inl err \<Rightarrow> (None, None, Some err)
      | Inr ccs \<Rightarrow>
          (case groth16_Setup be ccs seed of
             Inl err \<Rightarrow> (None, None, Some err)
           | Inr (pk, vk) \<Rightarrow> (Some pk, Some vk, None)))"

text \<open>
  \<open>func GenerateProof(pk groth16.ProvingKey, a, b, sum int) (groth16.Proof, error)\<close>.
  \<open>groth16.Prove\<close> dereferences the key: on a \<open>nil\<close> key the call panics.
\<close>

definition circuit_GenerateProof ::
  "('pk, 'vk, 'proof) groth16 \<Rightarrow> 'pk option \<Rightarrow> go_int \<Rightarrow> go_int \<Rightarrow> go_int \<Rightarrow> nat
     \<Rightarrow> (error + 'proof) go_result" where
  "circuit_GenerateProof be pk a b sumv rnd =
     (let assignment = \<lparr>A = VInt a, B = VInt b, Sum = VInt sumv\<rparr> in
      case frontend_NewWitness assignment BN254_ScalarField False of
        Inl err \<Rightarrow> Returned (Inl err)
      | Inr witness \<Rightarrow>
          (case frontend_Compile BN254_ScalarField zero_circuit of
             Inl err \<Rightarrow> Returned (Inl err)
           | Inr ccs \<Rightarrow>
               (case pk of
                  None \<Rightarrow> Panicked
                | Some k \<Rightarrow> Returned (groth16_Prove be ccs k witness rnd))))"

text \<open>
  \<open>func VerifyProof(vk groth16.VerifyingKey, proof groth16.Proof, sum int) error\<close>: the
  public assignment sets \<open>Sum\<close> only.
\<close>

definition circuit_VerifyProof ::
  "('pk, 'vk, 'proof) groth16 \<Rightarrow> 'vk option \<Rightarrow> 'proof \<Rightarrow> go_int \<Rightarrow> error option go_result" where
  "circuit_VerifyProof be vk proof sumv =
     (let publicAssignment = \<lparr>A = VNil, B = VNil, Sum = VInt sumv\<rparr> in
      case frontend_NewWitness publicAssignment BN254_ScalarField True of
        Inl err \<Rightarrow> Returned (Some err)
      | Inr publicWitness \<Rightarrow>
          (case vk of
             None \<Rightarrow> Panicked
           | Some k \<Rightarrow> Returned (groth16_Verify be proof k publicWitness)))"

section \<open>Package \<open>models\<close> and the JSON decoder\<close>

text \<open>
  \<open>type ProofRequest struct\<close> and \<open>type VerifyRequest struct\<close>.
\<close>

record ProofRequest =
  req_A :: go_int
  req_B :: go_int
  req_Sum :: go_int

record VerifyRequest =
  vreq_Proof :: "byte list"
  vreq_Sum :: go_int

text \<open>
  A request body, as \<open>json.NewDecoder(r.Body).Decode(&req)\<close> sees it. The body is not
  JSON text (\<open>NotJSON\<close>, also an empty body), or its first JSON value is not an object
  (\<open>NotObject\<close>), or it is an object, and then for each field of the Go struct the
  object has no member of that name or the member is \<open>null\<close> (\<open>Missing\<close>), has a member
  that cannot be stored in the field's Go type (\<open>Mistyped\<close>: a string where an \<open>int\<close> is
  expected, a number with a fraction or outside 64 bits, a proof that is not base64
  text), or has a member with a value of that type (\<open>Given\<close>). Members with other names
  are ignored by the decoder. A body that is the JSON value \<open>null\<close> decodes like an
  object without members.
\<close>

datatype 'a jfield = Missing | Mistyped | Given 'a

datatype 'a body = NotJSON | NotObject | Object 'a

type_synonym generate_body = "(go_int jfield \<times> go_int jfield \<times> go_int jfield) body"
type_synonym verify_body = "(byte list jfield \<times> go_int jfield) body"

text \<open>
  Decoding one member into a struct field that holds its zero value \<open>z\<close>: a missing member
  leaves the field as it is, and this is not an error; a member of the wrong type is one.
\<close>

fun decode_field :: "'a \<Rightarrow> 'a jfield \<Rightarrow> error + 'a" where
  "decode_field z Missing = Inr z"
| "decode_field z Mistyped = Inl ''json: cannot unmarshal value into Go struct field''"
| "decode_field z (Given v) = Inr v"

fun Decode_ProofRequest :: "generate_body \<Rightarrow> error + ProofRequest" where
  "Decode_ProofRequest NotJSON = Inl ''invalid character looking for beginning of value''"
| "Decode_ProofRequest NotObject = Inl ''json: cannot unmarshal value into Go value''"
| "Decode_ProofRequest (Object (a, b, s)) =
     (case decode_field 0 a of
        Inl err \<Rightarrow> Inl err
      | Inr x \<Rightarrow>
          (case decode_field 0 b of
             Inl err \<Rightarrow> Inl err
           | Inr y \<Rightarrow>
               (case decode_field 0 s of
                  Inl err \<Rightarrow> Inl err
                | Inr z \<Rightarrow> Inr \<lparr>req_A = x, req_B = y, req_Sum = z\<rparr>)))"

fun Decode_VerifyRequest :: "verify_body \<Rightarrow> error + VerifyRequest" where
  "Decode_VerifyRequest NotJSON = Inl ''invalid character looking for beginning of value''"
| "Decode_VerifyRequest NotObject = Inl ''json: cannot unmarshal value into Go value''"
| "Decode_VerifyRequest (Object (p, s)) =
     (case decode_field [] p of
        Inl err \<Rightarrow> Inl err
      | Inr bs \<Rightarrow>
          (case decode_field 0 s of
             Inl err \<Rightarrow> Inl err
           | Inr z \<Rightarrow> Inr \<lparr>vreq_Proof = bs, vreq_Sum = z\<rparr>))"

text \<open>
  What a handler writes: \<open>respondWithError\<close> sends \<open>{"error": message}\<close>,
  \<open>respondWithJSON\<close> a \<open>ProofResponse\<close>, a \<open>VerifyResponse\<close> or the health payload. A
  handler that panics sends nothing.
\<close>

datatype payload =
    ErrorJSON string
  | ProofResponse "byte list" go_int string
  | VerifyResponse bool string
  | HealthJSON

datatype outcome = Panic | Response nat payload

definition respondWithJSON :: "nat \<Rightarrow> payload \<Rightarrow> outcome" where
  "respondWithJSON status pl = Response status pl"

definition respondWithError :: "nat \<Rightarrow> string \<Rightarrow> outcome" where
  "respondWithError status message = respondWithJSON status (ErrorJSON message)"

section \<open>Package \<open>handlers\<close>\<close>

text \<open>The lines the handlers write to the server log, one constructor per \<open>log\<close> call.\<close>

datatype logline =
    SetupStarting
  | SetupFailed error
  | SetupComplete
  | GeneratingProof go_int go_int go_int
  | ProofGenerationFailed error
  | ProofSerializationFailed error
  | ProofGenerated
  | VerifyingProof go_int
  | ProofVerificationFailed error
  | ProofVerified

text \<open>
  The package variables \<open>provingKey\<close>, \<open>verifyingKey\<close>, \<open>setupOnce\<close> (whether its
  \<open>Do\<close> has run) and \<open>setupErr\<close>, and the server log.
\<close>

record ('pk, 'vk) globals =
  provingKey :: "'pk option"
  verifyingKey :: "'vk option"
  setupOnce :: bool
  setupErr :: "error option"
  logged :: "logline list"

definition process_start :: "('pk, 'vk) globals" where
  "process_start =
     \<lparr>provingKey = None, verifyingKey = None, setupOnce = False, setupErr = None,
      logged = []\<rparr>"

text \<open>
  \<open>func initializeKeys()\<close>: \<open>setupOnce.Do\<close> runs its function on the first call only.
\<close>

definition initializeKeys ::
  "('pk, 'vk, 'proof) groth16 \<Rightarrow> nat \<Rightarrow> ('pk, 'vk) globals \<Rightarrow> ('pk, 'vk) globals" where
  "initializeKeys be seed s =
     (if setupOnce s then s
      else
        (let s1 = s\<lparr>logged := logged s @ [SetupStarting]\<rparr>;
             (pk, vk, err) = circuit_Setup be seed;
             s2 = s1\<lparr>provingKey := pk, verifyingKey := vk, setupErr := err\<rparr>
         in case err of
              Some e \<Rightarrow> s2\<lparr>logged := logged s2 @ [SetupFailed e], setupOnce := True\<rparr>
            | None \<Rightarrow> s2\<lparr>logged := logged s2 @ [SetupComplete], setupOnce := True\<rparr>))"

definition msg_generated :: string where
  "msg_generated = ''Proof generated successfully. This proves you know two numbers that add up to the sum, without revealing the numbers themselves!''"

definition msg_invalid :: string where
  "msg_invalid = ''Proof is invalid. The prover does not know valid numbers that add up to the given sum.''"

definition msg_valid :: string where
  "msg_valid = ''Proof is valid! The prover knows two numbers that add up to the sum (without revealing them).''"

text \<open>
  \<open>func GenerateProof(w http.ResponseWriter, r *http.Request)\<close>, for
  \<open>POST /api/proof/generate\<close>. \<open>seed\<close> and \<open>rnd\<close> are the randomness the backend draws
  during this request, for the setup (if this request runs it) and for the proof.
\<close>

definition GenerateProof ::
  "('pk, 'vk, 'proof) groth16 \<Rightarrow> nat \<Rightarrow> nat \<Rightarrow> ('pk, 'vk) globals \<Rightarrow> generate_body
     \<Rightarrow> ('pk, 'vk) globals \<times> outcome" where
  "GenerateProof be seed rnd s0 r =
     (let s = initializeKeys be seed s0 in
      case setupErr s of
        Some e \<Rightarrow> (s, respondWithError StatusInternalServerError (''Setup failed: '' @ e))
      | None \<Rightarrow>
          (case Decode_ProofRequest r of
             Inl err \<Rightarrow> (s, respondWithError StatusBadRequest ''Invalid request body'')
           | Inr req \<Rightarrow>
               (let s1 = s\<lparr>logged := logged s @
                            [GeneratingProof (req_A req) (req_B req) (req_Sum req)]\<rparr> in
                case circuit_GenerateProof be (provingKey s1)
                       (req_A req) (req_B req) (req_Sum req) rnd of
                  Panicked \<Rightarrow> (s1, Panic)
                | Returned (Inl err) \<Rightarrow>
                    (s1\<lparr>logged := logged s1 @ [ProofGenerationFailed err]\<rparr>,
                     respondWithError StatusInternalServerError ''Failed to generate proof'')
                | Returned (Inr proof) \<Rightarrow>
                    (case proof_WriteTo be proof of
                       Inl err \<Rightarrow>
                         (s1\<lparr>logged := logged s1 @ [ProofSerializationFailed err]\<rparr>,
                          respondWithError StatusInternalServerError
                            ''Failed to serialize proof'')
                     | Inr proofBytes \<Rightarrow>
                         (s1\<lparr>logged := logged s1 @ [ProofGenerated]\<rparr>,
                          respondWithJSON StatusOK
                            (ProofResponse proofBytes (req_Sum req) msg_generated))))))"

text \<open>
  \<open>func VerifyProof(w http.ResponseWriter, r *http.Request)\<close>, for
  \<open>POST /api/proof/verify\<close>.
\<close>

definition VerifyProof ::
  "('pk, 'vk, 'proof) groth16 \<Rightarrow> nat \<Rightarrow> ('pk, 'vk) globals \<Rightarrow> verify_body
     \<Rightarrow> ('pk, 'vk) globals \<times> outcome" where
  "VerifyProof be seed s0 r =
     (let s = initializeKeys be seed s0 in
      case setupErr s of
        Some e \<Rightarrow> (s, respondWithError StatusInternalServerError (''Setup failed: '' @ e))
      | None \<Rightarrow>
          (case Decode_VerifyRequest r of
             Inl err \<Rightarrow> (s, respondWithError StatusBadRequest ''Invalid request body'')
           | Inr req \<Rightarrow>
               (let s1 = s\<lparr>logged := logged s @ [VerifyingProof (vreq_Sum req)]\<rparr> in
                case proof_ReadFrom be (vreq_Proof req) of
                  Inl err \<Rightarrow> (s1, respondWithError StatusBadRequest ''Invalid proof format'')
                | Inr proof \<Rightarrow>
                    (case circuit_VerifyProof be (verifyingKey s1) proof (vreq_Sum req) of
                       Panicked \<Rightarrow> (s1, Panic)
                     | Returned (Some err) \<Rightarrow>
                         (s1\<lparr>logged := logged s1 @ [ProofVerificationFailed err]\<rparr>,
                          respondWithJSON StatusOK (VerifyResponse False msg_invalid))
                     | Returned None \<Rightarrow>
                         (s1\<lparr>logged := logged s1 @ [ProofVerified]\<rparr>,
                          respondWithJSON StatusOK (VerifyResponse True msg_valid))))))"

text \<open>\<open>func HealthCheck\<close>, for \<open>GET /health\<close>.\<close>

definition HealthCheck :: "('pk, 'vk) globals \<Rightarrow> ('pk, 'vk) globals \<times> outcome" where
  "HealthCheck s = (s, respondWithJSON StatusOK HealthJSON)"

section \<open>The router of \<open>main\<close>\<close>

text \<open>
  The three routes, and a run of the server on a sequence of requests, each with the
  randomness the backend draws while it is served.
\<close>

datatype request =
    PostGenerate generate_body
  | PostVerify verify_body
  | GetHealth

fun serve ::
  "('pk, 'vk, 'proof) groth16 \<Rightarrow> ('pk, 'vk) globals \<Rightarrow> request \<times> nat \<times> nat
     \<Rightarrow> ('pk, 'vk) globals \<times> outcome" where
  "serve be s (PostGenerate r, seed, rnd) = GenerateProof be seed rnd s r"
| "serve be s (PostVerify r, seed, rnd) = VerifyProof be seed s r"
| "serve be s (GetHealth, seed, rnd) = HealthCheck s"

fun serve_all ::
  "('pk, 'vk, 'proof) groth16 \<Rightarrow> ('pk, 'vk) globals \<Rightarrow> (request \<times> nat \<times> nat) list
     \<Rightarrow> ('pk, 'vk) globals \<times> outcome list" where
  "serve_all be s [] = (s, [])"
| "serve_all be s (q # qs) =
     (let (s1, out) = serve be s q;
          (s2, outs) = serve_all be s1 qs
      in (s2, out # outs))"

section \<open>What the proofs are stated with\<close>

text \<open>
  The field element of a Go \<open>int\<close>, and the constraint system that \<open>frontend.Compile\<close>
  returns for the addition circuit (lemma \<open>Compile_addition\<close>).
\<close>

definition to_field :: "go_int \<Rightarrow> int" where
  "to_field v = sint v mod BN254_ScalarField"

definition addition_ccs :: constraint_system where
  "addition_ccs =
     \<lparr>ccs_field = BN254_ScalarField, nbPublic = 1, nbSecret = 2,
      ccs_constraints = [(VAdd (VWire 2) (VWire 3), VWire 1)]\<rparr>"

text \<open>
  What the program expects of the backend. \<open>Prove\<close> solves the constraint system first
  and fails on a witness that does not solve it. With the keys of one \<open>Setup\<close> and a
  witness that solves the system, \<open>Prove\<close> returns a proof; the proof survives
  \<open>WriteTo\<close> and \<open>ReadFrom\<close>; and \<open>Verify\<close> accepts it for exactly the public inputs
  it was made for.
\<close>

definition groth16_contract :: "('pk, 'vk, 'proof) groth16 \<Rightarrow> bool" where
  "groth16_contract be \<longleftrightarrow>
     (\<forall>ccs pk w rnd. \<not> solves ccs w \<longrightarrow> (\<exists>e. groth16_Prove be ccs pk w rnd = Inl e)) \<and>
     (\<forall>ccs seed pk vk w rnd.
        groth16_Setup be ccs seed = Inr (pk, vk) \<longrightarrow> solves ccs w \<longrightarrow>
        (\<exists>pf bs.
           groth16_Prove be ccs pk w rnd = Inr pf \<and>
           proof_WriteTo be pf = Inr bs \<and>
           proof_ReadFrom be bs = Inr pf \<and>
           (\<forall>pw. w_secret pw = [] \<longrightarrow>
              (groth16_Verify be pf vk pw = None) = (w_public pw = w_public w))))"

text \<open>
  The package variables are either untouched or hold what one run of \<open>circuit.Setup\<close>
  returned: the only assignment to them is the one inside \<open>setupOnce.Do\<close>.
\<close>

definition key_inv :: "('pk, 'vk, 'proof) groth16 \<Rightarrow> ('pk, 'vk) globals \<Rightarrow> bool" where
  "key_inv be s \<longleftrightarrow>
     (setupOnce s \<longrightarrow>
        (\<exists>seed. (provingKey s, verifyingKey s, setupErr s) = circuit_Setup be seed))"

subsection \<open>A backend without cryptography\<close>

text \<open>
  A backend that meets the contract: the proof is the public part of the witness, each
  field element written as 32 octets (least significant first), and the keys are the field
  modulus. It shows that the contract can be met and serves as the concrete backend of the
  examples.
\<close>

fun le_bytes :: "nat \<Rightarrow> nat \<Rightarrow> byte list" where
  "le_bytes 0 n = []"
| "le_bytes (Suc k) n = of_nat (n mod 256) # le_bytes k (n div 256)"

fun le_nat :: "byte list \<Rightarrow> nat" where
  "le_nat [] = 0"
| "le_nat (b # bs) = unat b + 256 * le_nat bs"

definition encode_public :: "int list \<Rightarrow> byte list" where
  "encode_public xs = concat (map (\<lambda>x. le_bytes 32 (nat x)) xs)"

definition mock_backend :: "(int, int, byte list) groth16" where
  "mock_backend =
     \<lparr>groth16_Setup = (\<lambda>ccs seed.
        if 0 < nbPublic ccs \<and> ccs_field ccs \<le> 2 ^ 256
        then Inr (ccs_field ccs, ccs_field ccs)
        else Inl ''unsupported constraint system''),
      groth16_Prove = (\<lambda>ccs pk w rnd.
        if solves ccs w then Inr (encode_public (w_public w))
        else Inl ''constraint is not satisfied''),
      groth16_Verify = (\<lambda>pf vk pw.
        if field_elems vk (w_public pw) \<and> pf = encode_public (w_public pw) then None
        else Some ''pairing check failed''),
      proof_WriteTo = (\<lambda>pf. Inr pf),
      proof_ReadFrom = (\<lambda>bs.
        if bs \<noteq> [] \<and> length bs mod 32 = 0 then Inr bs else Inl ''unexpected EOF'')\<rparr>"

subsection \<open>Backends that fail\<close>

text \<open>
  Two more concrete backends for the examples: one whose \<open>Setup\<close> returns an error, and
  one whose \<open>Verify\<close> breaks down with an error of its own on every call, whatever the
  proof.
\<close>

definition failing_setup_backend :: "(int, int, byte list) groth16" where
  "failing_setup_backend =
     mock_backend\<lparr>groth16_Setup := (\<lambda>ccs seed. Inl ''trusted setup failed'')\<rparr>"

definition faulty_verify_backend :: "(int, int, byte list) groth16" where
  "faulty_verify_backend =
     mock_backend\<lparr>groth16_Verify := (\<lambda>pf vk pw. Some ''internal error'')\<rparr>"

subsection \<open>Vocabulary of the statements\<close>

text \<open>
  How often the function inside \<open>setupOnce.Do\<close> has started, read off the log (it logs
  one line each time it starts), and the part of the package variables that the setup
  decides.
\<close>

definition setup_attempts :: "('pk, 'vk) globals \<Rightarrow> nat" where
  "setup_attempts s = length (filter (\<lambda>l. l = SetupStarting) (logged s))"

definition same_setup :: "('pk, 'vk) globals \<Rightarrow> ('pk, 'vk) globals \<Rightarrow> bool" where
  "same_setup s s' \<longleftrightarrow>
     provingKey s' = provingKey s \<and> verifyingKey s' = verifyingKey s \<and>
     setupErr s' = setupErr s \<and> setupOnce s' = setupOnce s \<and>
     setup_attempts s' = setup_attempts s"

text \<open>
  The answer to a request once the setup has failed with error \<open>e\<close>; \<open>/health\<close> does
  not look at the setup.
\<close>

definition setup_failure :: "error \<Rightarrow> request \<Rightarrow> outcome \<Rightarrow> bool" where
  "setup_failure e r out \<longleftrightarrow>
     (r = GetHealth \<or>
      out = Response StatusInternalServerError (ErrorJSON (''Setup failed: '' @ e)))"

text \<open>
  A request body that is not JSON, not an object, or has a member of the wrong type for
  one of the fields of the Go struct. An absent member does not make a body ill-typed:
  \<open>field_or z f\<close> is what the decoder leaves in a field with zero value \<open>z\<close>.
\<close>

fun field_or :: "'a \<Rightarrow> 'a jfield \<Rightarrow> 'a" where
  "field_or z Missing = z"
| "field_or z Mistyped = z"
| "field_or z (Given v) = v"

fun mistyped :: "'a jfield \<Rightarrow> bool" where
  "mistyped Mistyped = True"
| "mistyped Missing = False"
| "mistyped (Given v) = False"

fun ill_typed_generate :: "generate_body \<Rightarrow> bool" where
  "ill_typed_generate NotJSON = True"
| "ill_typed_generate NotObject = True"
| "ill_typed_generate (Object (a, b, s)) = (mistyped a \<or> mistyped b \<or> mistyped s)"

fun ill_typed_verify :: "verify_body \<Rightarrow> bool" where
  "ill_typed_verify NotJSON = True"
| "ill_typed_verify NotObject = True"
| "ill_typed_verify (Object (p, s)) = (mistyped p \<or> mistyped s)"

section \<open>Properties of the model\<close>

lemma length_le_bytes: "length (le_bytes k n) = k"
  by (induction k arbitrary: n) auto

lemma le_nat_le_bytes: "n < 256 ^ k \<Longrightarrow> le_nat (le_bytes k n) = n"
proof (induction k arbitrary: n)
  case 0
  then show ?case by simp
next
  case (Suc k)
  have "n div 256 < 256 ^ k" using Suc.prems by (simp add: less_mult_imp_div_less mult.commute)
  then have "le_nat (le_bytes k (n div 256)) = n div 256" by (rule Suc.IH)
  moreover have "unat (of_nat (n mod 256) :: byte) = n mod 256"
    by (simp add: unat_of_nat)
  ultimately show ?case by simp
qed

lemma le_bytes_inj:
  "m < 256 ^ k \<Longrightarrow> n < 256 ^ k \<Longrightarrow> le_bytes k m = le_bytes k n \<Longrightarrow> m = n"
  by (metis le_nat_le_bytes)

lemma encode_public_inj:
  "field_elems p xs \<Longrightarrow> field_elems p ys \<Longrightarrow> p \<le> 2 ^ 256 \<Longrightarrow>
   encode_public xs = encode_public ys \<Longrightarrow> xs = ys"
proof (induction xs arbitrary: ys)
  case Nil
  show ?case
  proof (cases ys)
    case Nil then show ?thesis by simp
  next
    case (Cons y ys')
    have "length (encode_public ys) = 0" using Nil.prems(4) by (simp add: encode_public_def)
    then show ?thesis using Cons by (simp add: encode_public_def length_le_bytes)
  qed
next
  case (Cons x xs)
  show ?case
  proof (cases ys)
    case Nil
    have "length (encode_public (x # xs)) = 0" using Cons.prems(4) Nil by (simp add: encode_public_def)
    then show ?thesis by (simp add: encode_public_def length_le_bytes)
  next
    case (Cons y ys')
    have eq: "le_bytes 32 (nat x) @ encode_public xs = le_bytes 32 (nat y) @ encode_public ys'"
      using Cons.prems(4) Cons by (simp add: encode_public_def)
    have "length (le_bytes 32 (nat x)) = length (le_bytes 32 (nat y))"
      by (simp only: length_le_bytes)
    from append_eq_append_conv [OF disjI1 [OF this], THEN iffD1, OF eq]
    have h: "le_bytes 32 (nat x) = le_bytes 32 (nat y)" and t: "encode_public xs = encode_public ys'"
      by blast+
    have bx: "0 \<le> x" "x < 2 ^ 256" and by': "0 \<le> y" "y < 2 ^ 256"
      using Cons.prems(1,2,3) Cons by (auto simp: field_elems_def)
    have "nat x < 256 ^ 32" "nat y < 256 ^ 32" using bx by' by auto
    then have "nat x = nat y" using h by (rule le_bytes_inj)
    then have "x = y" using bx(1) by'(1) by linarith
    moreover have "xs = ys'"
      using Cons.IH [of ys'] Cons.prems(1,2,3) Cons t by (simp add: field_elems_def)
    ultimately show ?thesis using Cons by simp
  qed
qed

lemma length_encode_public: "length (encode_public xs) = 32 * length xs"
  by (induction xs) (simp_all add: encode_public_def length_le_bytes)

lemma mock_contract: "groth16_contract mock_backend"
  unfolding groth16_contract_def
proof (intro conjI allI impI)
  fix ccs :: constraint_system and pk :: int and w rnd
  assume "\<not> solves ccs w"
  then show "\<exists>e. groth16_Prove mock_backend ccs pk w rnd = Inl e"
    by (simp add: mock_backend_def)
next
  fix ccs :: constraint_system and seed and pk vk :: int and w rnd
  assume stp: "groth16_Setup mock_backend ccs seed = Inr (pk, vk)" and sol: "solves ccs w"
  from stp have pub: "0 < nbPublic ccs" and fld: "ccs_field ccs \<le> 2 ^ 256"
    and vk: "vk = ccs_field ccs"
    by (auto simp: mock_backend_def split: if_splits)
  let ?pf = "encode_public (w_public w)"
  have len: "length ?pf = 32 * nbPublic ccs"
    using sol by (simp add: length_encode_public solves_def)
  have fe: "field_elems vk (w_public w)" using sol vk by (simp add: solves_def)
  have 1: "groth16_Prove mock_backend ccs pk w rnd = Inr ?pf" using sol by (simp add: mock_backend_def)
  have 2: "proof_WriteTo mock_backend ?pf = Inr ?pf" by (simp add: mock_backend_def)
  have ne: "?pf \<noteq> []" using len pub by auto
  have 3: "proof_ReadFrom mock_backend ?pf = Inr ?pf" using len ne by (simp add: mock_backend_def)
  have 4: "(groth16_Verify mock_backend ?pf vk pw = None) = (w_public pw = w_public w)" for pw
  proof
    assume "groth16_Verify mock_backend ?pf vk pw = None"
    then have a: "field_elems vk (w_public pw)" and b: "?pf = encode_public (w_public pw)"
      by (auto simp: mock_backend_def split: if_splits)
    from encode_public_inj [OF a fe _ b [symmetric]] fld vk show "w_public pw = w_public w"
      by simp
  next
    assume "w_public pw = w_public w"
    then show "groth16_Verify mock_backend ?pf vk pw = None" using fe by (simp add: mock_backend_def)
  qed
  show "\<exists>pf bs. groth16_Prove mock_backend ccs pk w rnd = Inr pf \<and> proof_WriteTo mock_backend pf = Inr bs \<and>
          proof_ReadFrom mock_backend bs = Inr pf \<and>
          (\<forall>pw. w_secret pw = [] \<longrightarrow>
             (groth16_Verify mock_backend pf vk pw = None) = (w_public pw = w_public w))"
    using 1 2 3 4 by blast
qed

lemma Compile_addition: "frontend_Compile BN254_ScalarField zero_circuit = Inr addition_ccs"
  by (simp add: frontend_Compile_def Define_def api_AssertIsEqual_def api_Add_def
      zero_circuit_def addition_ccs_def)

lemma NewWitness_full:
  "frontend_NewWitness \<lparr>A = VInt a, B = VInt b, Sum = VInt s\<rparr> BN254_ScalarField False =
     Inr \<lparr>w_public = [to_field s], w_secret = [to_field a, to_field b]\<rparr>"
  by (simp add: frontend_NewWitness_def to_field_def)

lemma NewWitness_public:
  "frontend_NewWitness \<lparr>A = x, B = y, Sum = VInt s\<rparr> BN254_ScalarField True =
     Inr \<lparr>w_public = [to_field s], w_secret = []\<rparr>"
  by (simp add: frontend_NewWitness_def to_field_def)

lemma BN254_pos: "0 < BN254_ScalarField"
  by (simp add: BN254_ScalarField_def)

lemma to_field_range: "0 \<le> to_field v" "to_field v < BN254_ScalarField"
  using BN254_pos by (simp_all add: to_field_def)

lemma solves_addition:
  "solves addition_ccs \<lparr>w_public = [to_field s], w_secret = [to_field a, to_field b]\<rparr> \<longleftrightarrow>
     (to_field a + to_field b) mod BN254_ScalarField = to_field s"
  using to_field_range [of s] to_field_range [of a] to_field_range [of b]
  by (auto simp: solves_def addition_ccs_def field_elems_def holds_def)

lemma sint64_bounds: "- (2 ^ 63) \<le> sint (v :: go_int)" "sint (v :: go_int) < 2 ^ 63"
  using sint_ge [of v] sint_lt [of v] by simp_all

lemma small_multiple_zero:
  fixes d :: int
  assumes "d mod BN254_ScalarField = 0" and "- (2 ^ 66) < d" and "d < 2 ^ 66"
  shows "d = 0"
proof (rule ccontr)
  assume "d \<noteq> 0"
  from assms(1) have "BN254_ScalarField dvd d" by (simp add: dvd_eq_mod_eq_0)
  then have "BN254_ScalarField dvd \<bar>d\<bar>" by simp
  moreover have "0 < \<bar>d\<bar>" using \<open>d \<noteq> 0\<close> by simp
  ultimately have "BN254_ScalarField \<le> \<bar>d\<bar>" by (rule zdvd_imp_le)
  moreover have "\<bar>d\<bar> < 2 ^ 66" using assms(2,3) by simp
  ultimately show False by (simp add: BN254_ScalarField_def)
qed

lemma field_relation_iff:
  "(to_field a + to_field b) mod BN254_ScalarField = to_field s \<longleftrightarrow> sint a + sint b = sint s"
proof
  assume "sint a + sint b = sint s"
  then show "(to_field a + to_field b) mod BN254_ScalarField = to_field s"
    by (simp add: to_field_def mod_add_eq)
next
  assume "(to_field a + to_field b) mod BN254_ScalarField = to_field s"
  then have "(sint a + sint b) mod BN254_ScalarField = sint s mod BN254_ScalarField"
    by (simp add: to_field_def mod_add_eq)
  then have "(sint a + sint b - sint s) mod BN254_ScalarField = 0"
    by (metis mod_diff_cong mod_0 diff_self)
  moreover have "- (2 ^ 66) < sint a + sint b - sint s" "sint a + sint b - sint s < 2 ^ 66"
    using sint64_bounds [of a] sint64_bounds [of b] sint64_bounds [of s] by simp_all
  ultimately have "sint a + sint b - sint s = 0" by (rule small_multiple_zero)
  then show "sint a + sint b = sint s" by simp
qed

lemma to_field_inj: "to_field s = to_field t \<longleftrightarrow> s = t"
proof
  assume "to_field s = to_field t"
  then have "(sint s - sint t) mod BN254_ScalarField = 0"
    unfolding to_field_def by (metis mod_diff_cong mod_0 diff_self)
  moreover have "- (2 ^ 66) < sint s - sint t" "sint s - sint t < 2 ^ 66"
    using sint64_bounds [of s] sint64_bounds [of t] by simp_all
  ultimately have "sint s - sint t = 0" by (rule small_multiple_zero)
  then have "sint s = sint t" by simp
  then show "s = t" by (rule signed_word_eqI)
qed simp

lemma circuit_Setup_eq:
  "circuit_Setup be seed =
     (case groth16_Setup be addition_ccs seed of
        Inl err \<Rightarrow> (None, None, Some err)
      | Inr (pk, vk) \<Rightarrow> (Some pk, Some vk, None))"
  by (simp add: circuit_Setup_def Compile_addition)

lemma setupOnce_initializeKeys [simp]: "setupOnce (initializeKeys be seed s)"
  by (simp add: initializeKeys_def Let_def split: prod.splits option.splits)

lemma initializeKeys_done [simp]: "setupOnce s \<Longrightarrow> initializeKeys be seed s = s"
  by (simp add: initializeKeys_def)

lemma initializeKeys_idem:
  "initializeKeys be seed' (initializeKeys be seed s) = initializeKeys be seed s"
  by simp

lemma key_inv_process_start: "key_inv be process_start"
  by (simp add: key_inv_def process_start_def)

lemma key_inv_initializeKeys: "key_inv be s \<Longrightarrow> key_inv be (initializeKeys be seed s)"
proof (cases "setupOnce s")
  case True
  assume "key_inv be s"
  then show ?thesis using True by simp
next
  case False
  obtain pk vk err where cs: "circuit_Setup be seed = (pk, vk, err)"
    by (cases "circuit_Setup be seed") auto
  have "(provingKey (initializeKeys be seed s), verifyingKey (initializeKeys be seed s),
         setupErr (initializeKeys be seed s)) = circuit_Setup be seed"
    using False cs by (cases err) (simp_all add: initializeKeys_def)
  then show ?thesis unfolding key_inv_def by blast
qed

lemma ready_keys:
  assumes "key_inv be s" and "setupOnce s" and "setupErr s = None"
  obtains pk vk sd where "provingKey s = Some pk" and "verifyingKey s = Some vk"
    and "groth16_Setup be addition_ccs sd = Inr (pk, vk)"
proof -
  from assms(1,2) obtain sd where
    eq: "(provingKey s, verifyingKey s, setupErr s) = circuit_Setup be sd"
    unfolding key_inv_def by blast
  show thesis
  proof (cases "groth16_Setup be addition_ccs sd")
    case (Inl e)
    with eq assms(3) show thesis by (simp add: circuit_Setup_eq)
  next
    case (Inr kp)
    obtain pk vk where kp: "kp = (pk, vk)" by (cases kp)
    from eq Inr kp have "provingKey s = Some pk" "verifyingKey s = Some vk"
      by (simp_all add: circuit_Setup_eq)
    then show thesis using that Inr kp by simp
  qed
qed

lemma GenerateProof_via_init:
  "GenerateProof be seed rnd s0 r = GenerateProof be seed rnd (initializeKeys be seed s0) r"
  by (simp add: GenerateProof_def)

lemma VerifyProof_via_init:
  "VerifyProof be seed s0 r = VerifyProof be seed (initializeKeys be seed s0) r"
  by (simp add: VerifyProof_def)

lemma circuit_GenerateProof_eq:
  "circuit_GenerateProof be (Some pk) a b c rnd =
     Returned (groth16_Prove be addition_ccs pk
       \<lparr>w_public = [to_field c], w_secret = [to_field a, to_field b]\<rparr> rnd)"
  by (simp add: circuit_GenerateProof_def NewWitness_full Compile_addition)

lemma circuit_VerifyProof_eq:
  "circuit_VerifyProof be (Some vk) pf c =
     Returned (groth16_Verify be pf vk \<lparr>w_public = [to_field c], w_secret = []\<rparr>)"
  by (simp add: circuit_VerifyProof_def NewWitness_public)

lemma GenerateProof_ready:
  assumes "setupOnce s" and "setupErr s = None" and "provingKey s = Some pk"
  shows "GenerateProof be seed rnd s (Object (Given a, Given b, Given c)) =
     (case groth16_Prove be addition_ccs pk
             \<lparr>w_public = [to_field c], w_secret = [to_field a, to_field b]\<rparr> rnd of
        Inl err \<Rightarrow>
          (s\<lparr>logged := logged s @ [GeneratingProof a b c, ProofGenerationFailed err]\<rparr>,
           Response StatusInternalServerError (ErrorJSON ''Failed to generate proof''))
      | Inr pf \<Rightarrow>
          (case proof_WriteTo be pf of
             Inl err \<Rightarrow>
               (s\<lparr>logged := logged s @ [GeneratingProof a b c, ProofSerializationFailed err]\<rparr>,
                Response StatusInternalServerError (ErrorJSON ''Failed to serialize proof''))
           | Inr bs \<Rightarrow>
               (s\<lparr>logged := logged s @ [GeneratingProof a b c, ProofGenerated]\<rparr>,
                Response StatusOK (ProofResponse bs c msg_generated))))"
  using assms
  by (simp add: GenerateProof_def circuit_GenerateProof_eq respondWithError_def
      respondWithJSON_def split: sum.splits)

lemma VerifyProof_ready:
  assumes "setupOnce s" and "setupErr s = None" and "verifyingKey s = Some vk"
  shows "VerifyProof be seed s (Object (Given bs, Given c)) =
     (case proof_ReadFrom be bs of
        Inl err \<Rightarrow>
          (s\<lparr>logged := logged s @ [VerifyingProof c]\<rparr>,
           Response StatusBadRequest (ErrorJSON ''Invalid proof format''))
      | Inr pf \<Rightarrow>
          (case groth16_Verify be pf vk \<lparr>w_public = [to_field c], w_secret = []\<rparr> of
             Some err \<Rightarrow>
               (s\<lparr>logged := logged s @ [VerifyingProof c, ProofVerificationFailed err]\<rparr>,
                Response StatusOK (VerifyResponse False msg_invalid))
           | None \<Rightarrow>
               (s\<lparr>logged := logged s @ [VerifyingProof c, ProofVerified]\<rparr>,
                Response StatusOK (VerifyResponse True msg_valid))))"
  using assms
  by (simp add: VerifyProof_def circuit_VerifyProof_eq respondWithError_def
      respondWithJSON_def split: sum.splits option.splits)

lemma contract_complete:
  assumes "groth16_contract be" and "groth16_Setup be ccs sd = Inr (pk, vk)" and "solves ccs w"
  shows "\<exists>pf bs. groth16_Prove be ccs pk w rnd = Inr pf \<and>
           proof_WriteTo be pf = Inr bs \<and> proof_ReadFrom be bs = Inr pf \<and>
           (\<forall>pw. w_secret pw = [] \<longrightarrow>
              (groth16_Verify be pf vk pw = None) = (w_public pw = w_public w))"
  using assms unfolding groth16_contract_def by blast

lemma contract_refuses:
  assumes "groth16_contract be" and "\<not> solves ccs w"
  shows "\<exists>e. groth16_Prove be ccs pk w rnd = Inl e"
  using assms unfolding groth16_contract_def by blast

lemma BN254_le: "BN254_ScalarField \<le> 2 ^ 256"
  by (simp add: BN254_ScalarField_def)

lemma mock_sel:
  "groth16_Prove mock_backend ccs pk w rnd =
     (if solves ccs w then Inr (encode_public (w_public w))
      else Inl ''constraint is not satisfied'')"
  "groth16_Verify mock_backend pf vk pw =
     (if field_elems vk (w_public pw) \<and> pf = encode_public (w_public pw) then None
      else Some ''pairing check failed'')"
  "proof_WriteTo mock_backend pf = Inr pf"
  "proof_ReadFrom mock_backend bs =
     (if bs \<noteq> [] \<and> length bs mod 32 = 0 then Inr bs else Inl ''unexpected EOF'')"
  by (simp_all add: mock_backend_def)

lemma mock_Setup_addition:
  "groth16_Setup mock_backend addition_ccs seed = Inr (BN254_ScalarField, BN254_ScalarField)"
  using BN254_le by (simp add: mock_backend_def addition_ccs_def)

lemma mock_setup_ok: "setupErr (initializeKeys mock_backend seed process_start) = None"
  by (simp add: initializeKeys_def process_start_def circuit_Setup_eq mock_Setup_addition)

lemma mock_started:
  "initializeKeys mock_backend seed process_start =
     \<lparr>provingKey = Some BN254_ScalarField, verifyingKey = Some BN254_ScalarField,
      setupOnce = True, setupErr = None, logged = [SetupStarting, SetupComplete]\<rparr>"
  by (simp add: initializeKeys_def process_start_def circuit_Setup_eq mock_Setup_addition)

lemma to_field_small [simp]: "to_field 8 = 8" "to_field 5 = 5" "to_field 3 = 3" "to_field 0 = 0"
  by (simp_all add: to_field_def BN254_ScalarField_def)

lemma mock_generate_5_3_8:
  "GenerateProof mock_backend 0 0 process_start (Object (Given 5, Given 3, Given 8)) =
     ((initializeKeys mock_backend 0 process_start)
        \<lparr>logged := [SetupStarting, SetupComplete, GeneratingProof 5 3 8, ProofGenerated]\<rparr>,
      Response StatusOK (ProofResponse (encode_public [8]) 8 msg_generated))"
proof -
  have sol: "solves addition_ccs \<lparr>w_public = [to_field 8], w_secret = [to_field 5, to_field 3]\<rparr>"
    by (simp only: solves_addition field_relation_iff) simp
  show ?thesis
    apply (subst GenerateProof_via_init)
    apply (subst GenerateProof_ready [where pk = BN254_ScalarField])
    using sol
       apply (simp_all add: mock_started mock_sel)
    done
qed

lemma same_setup_refl [simp]: "same_setup s s"
  by (simp add: same_setup_def)

lemma same_setup_trans: "same_setup s s' \<Longrightarrow> same_setup s' s'' \<Longrightarrow> same_setup s s''"
  by (simp add: same_setup_def)

lemma GenerateProof_same_setup:
  "setupOnce s \<Longrightarrow> same_setup s (fst (GenerateProof be seed rnd s r))"
  by (simp add: GenerateProof_def same_setup_def setup_attempts_def Let_def
      split: option.splits sum.splits go_result.splits)

lemma VerifyProof_same_setup:
  "setupOnce s \<Longrightarrow> same_setup s (fst (VerifyProof be seed s r))"
  by (simp add: VerifyProof_def same_setup_def setup_attempts_def Let_def
      split: option.splits sum.splits go_result.splits)

lemma serve_same_setup: "setupOnce s \<Longrightarrow> same_setup s (fst (serve be s q))"
proof -
  assume once: "setupOnce s"
  obtain r seed rnd where q: "q = (r, seed, rnd)" by (cases q) auto
  show ?thesis
    using once unfolding q
    by (cases r) (simp_all add: GenerateProof_same_setup VerifyProof_same_setup HealthCheck_def)
qed

lemma GenerateProof_failed_setup:
  "setupOnce s \<Longrightarrow> setupErr s = Some e \<Longrightarrow>
   GenerateProof be seed rnd s r =
     (s, Response StatusInternalServerError (ErrorJSON (''Setup failed: '' @ e)))"
  by (simp add: GenerateProof_def respondWithError_def respondWithJSON_def)

lemma VerifyProof_failed_setup:
  "setupOnce s \<Longrightarrow> setupErr s = Some e \<Longrightarrow>
   VerifyProof be seed s r =
     (s, Response StatusInternalServerError (ErrorJSON (''Setup failed: '' @ e)))"
  by (simp add: VerifyProof_def respondWithError_def respondWithJSON_def)

lemma serve_failed_setup:
  assumes "setupOnce s" and "setupErr s = Some e"
  shows "fst (serve be s q) = s" and "setup_failure e (fst q) (snd (serve be s q))"
proof -
  obtain r seed rnd where q: "q = (r, seed, rnd)" by (cases q) auto
  show "fst (serve be s q) = s"
    unfolding q using assms
    by (cases r) (simp_all add: GenerateProof_failed_setup VerifyProof_failed_setup HealthCheck_def)
  show "setup_failure e (fst q) (snd (serve be s q))"
    unfolding q using assms
    by (cases r) (simp_all add: GenerateProof_failed_setup VerifyProof_failed_setup
        setup_failure_def)
qed

lemma serve_all_same_setup:
  "setupOnce s \<Longrightarrow> same_setup s (fst (serve_all be s qs))"
proof (induction qs arbitrary: s)
  case Nil
  then show ?case by simp
next
  case (Cons q qs)
  have 1: "same_setup s (fst (serve be s q))" using Cons.prems by (rule serve_same_setup)
  then have "setupOnce (fst (serve be s q))" using Cons.prems by (simp add: same_setup_def)
  then have 2: "same_setup (fst (serve be s q)) (fst (serve_all be (fst (serve be s q)) qs))"
    by (rule Cons.IH)
  have "fst (serve_all be s (q # qs)) = fst (serve_all be (fst (serve be s q)) qs)"
    by (simp add: Let_def split: prod.splits)
  with same_setup_trans [OF 1 2] show ?case by simp
qed

lemma serve_all_failed_setup:
  assumes "setupOnce s" and "setupErr s = Some e"
  shows "fst (serve_all be s qs) = s \<and>
         length (snd (serve_all be s qs)) = length qs \<and>
         list_all2 (setup_failure e) (map fst qs) (snd (serve_all be s qs))"
proof (induction qs)
  case Nil
  show ?case by simp
next
  case (Cons q qs)
  from serve_failed_setup [OF assms, where be = be and q = q]
  have 1: "fst (serve be s q) = s" and 2: "setup_failure e (fst q) (snd (serve be s q))"
    by simp_all
  obtain s1 out where so: "serve be s q = (s1, out)" by (cases "serve be s q")
  with 1 2 have s1: "s1 = s" and out: "setup_failure e (fst q) out" by simp_all
  obtain s2 outs where sa: "serve_all be s qs = (s2, outs)" by (cases "serve_all be s qs")
  with Cons have "s2 = s" "length outs = length qs"
    "list_all2 (setup_failure e) (map fst qs) outs" by simp_all
  then show ?case using so s1 out sa by simp
qed





lemma generate_ok:
  assumes contract: "groth16_contract be"
    and inv: "key_inv be s0"
    and ok: "setupErr (initializeKeys be seed s0) = None"
    and rel: "sint a + sint b = sint c"
  shows "\<exists>bs. snd (GenerateProof be seed rnd s0 (Object (Given a, Given b, Given c))) =
                Response StatusOK (ProofResponse bs c msg_generated)"
proof -
  let ?s = "initializeKeys be seed s0"
  let ?w = "\<lparr>w_public = [to_field c], w_secret = [to_field a, to_field b]\<rparr>"
  have once: "setupOnce ?s" by simp
  from key_inv_initializeKeys [OF inv] once ok obtain pk vk sd where
    pk: "provingKey ?s = Some pk"
    and keys: "groth16_Setup be addition_ccs sd = Inr (pk, vk)"
    by (rule ready_keys)
  have sol: "solves addition_ccs ?w"
    using rel by (simp only: solves_addition field_relation_iff)
  from contract_complete [OF contract keys sol, of rnd] obtain pf bs where
    "groth16_Prove be addition_ccs pk ?w rnd = Inr pf" "proof_WriteTo be pf = Inr bs"
    by blast
  then have "snd (GenerateProof be seed rnd s0 (Object (Given a, Given b, Given c))) =
      Response StatusOK (ProofResponse bs c msg_generated)"
    by (subst GenerateProof_via_init) (simp add: GenerateProof_ready [OF once ok pk])
  then show ?thesis by blast
qed

lemma generate_refused:
  assumes contract: "groth16_contract be"
    and inv: "key_inv be s0"
    and ok: "setupErr (initializeKeys be seed s0) = None"
    and rel: "sint a + sint b \<noteq> sint c"
  shows "snd (GenerateProof be seed rnd s0 (Object (Given a, Given b, Given c))) =
           Response StatusInternalServerError (ErrorJSON ''Failed to generate proof'')"
proof -
  let ?s = "initializeKeys be seed s0"
  let ?w = "\<lparr>w_public = [to_field c], w_secret = [to_field a, to_field b]\<rparr>"
  have once: "setupOnce ?s" by simp
  from key_inv_initializeKeys [OF inv] once ok obtain pk vk sd where
    pk: "provingKey ?s = Some pk"
    by (rule ready_keys)
  have "\<not> solves addition_ccs ?w"
    using rel by (simp only: solves_addition field_relation_iff not_False_eq_True)
  with contract_refuses [OF contract, of addition_ccs ?w pk rnd]
  obtain e where "groth16_Prove be addition_ccs pk ?w rnd = Inl e" by blast
  then show ?thesis
    by (subst GenerateProof_via_init) (simp add: GenerateProof_ready [OF once ok pk])
qed

lemma overflow_example:
  "(9223372036854775807 :: go_int) + 1 = - 9223372036854775808"
  "sint (9223372036854775807 :: go_int) + sint (1 :: go_int) \<noteq>
     sint (- 9223372036854775808 :: go_int)"
  by simp_all

lemma negative_example: "sint (- 1 :: go_int) + sint (1 :: go_int) = sint (0 :: go_int)"
  by simp

lemma decode_field_Inl: "(\<exists>e. decode_field z f = Inl e) \<longleftrightarrow> mistyped f"
  by (cases f) simp_all

lemma Decode_ProofRequest_Inl:
  "(\<exists>e. Decode_ProofRequest g = Inl e) \<longleftrightarrow> ill_typed_generate g"
proof (cases g)
  case (Object t)
  obtain a b s where t: "t = (a, b, s)" by (cases t) auto
  show ?thesis unfolding Object t
    by (cases a; cases b; cases s) simp_all
qed simp_all

lemma Decode_VerifyRequest_Inl:
  "(\<exists>e. Decode_VerifyRequest v = Inl e) \<longleftrightarrow> ill_typed_verify v"
proof (cases v)
  case (Object t)
  obtain p s where t: "t = (p, s)" by (cases t) auto
  show ?thesis unfolding Object t
    by (cases p; cases s) simp_all
qed simp_all

lemma failing_sel:
  "groth16_Setup failing_setup_backend ccs seed = Inl ''trusted setup failed''"
  "proof_ReadFrom failing_setup_backend bs = proof_ReadFrom mock_backend bs"
  by (simp_all add: failing_setup_backend_def)

lemma faulty_sel:
  "groth16_Setup faulty_verify_backend ccs seed = groth16_Setup mock_backend ccs seed"
  "groth16_Verify faulty_verify_backend pf vk pw = Some ''internal error''"
  "proof_ReadFrom faulty_verify_backend bs = proof_ReadFrom mock_backend bs"
  by (simp_all add: faulty_verify_backend_def)

lemma failing_started:
  "initializeKeys failing_setup_backend seed process_start =
     \<lparr>provingKey = None, verifyingKey = None, setupOnce = True,
      setupErr = Some ''trusted setup failed'',
      logged = [SetupStarting, SetupFailed ''trusted setup failed'']\<rparr>"
  by (simp add: initializeKeys_def process_start_def circuit_Setup_eq failing_sel)

lemma faulty_started:
  "initializeKeys faulty_verify_backend seed process_start =
     \<lparr>provingKey = Some BN254_ScalarField, verifyingKey = Some BN254_ScalarField,
      setupOnce = True, setupErr = None, logged = [SetupStarting, SetupComplete]\<rparr>"
  by (simp add: initializeKeys_def process_start_def circuit_Setup_eq faulty_sel
      mock_Setup_addition)

lemma length_encode_one: "length (encode_public [x]) = 32"
  by (simp add: length_encode_public)

lemma encode_one_not_Nil: "encode_public [x] \<noteq> []"
  using length_encode_one [of x] by auto

lemma mock_ReadFrom_encode_one: "proof_ReadFrom mock_backend (encode_public [x]) = Inr (encode_public [x])"
  by (simp add: mock_sel length_encode_one encode_one_not_Nil)

lemma mock_ReadFrom_short: "proof_ReadFrom mock_backend [1, 2, 3] = Inl ''unexpected EOF''"
  by (simp add: mock_sel)

lemma field_elems_small: "field_elems BN254_ScalarField [8]" "field_elems BN254_ScalarField [9]"
  by (simp_all add: field_elems_def BN254_ScalarField_def)

lemma encode_8_9: "encode_public [8] \<noteq> encode_public [9]"
  using encode_public_inj [OF field_elems_small(1) field_elems_small(2) BN254_le] by auto

lemma to_field_9 [simp]: "to_field 9 = 9"
  by (simp add: to_field_def BN254_ScalarField_def)

lemma to_field_0: "to_field 0 = 0"
  by (simp add: to_field_def)

lemma mock_generate_zero:
  "snd (GenerateProof mock_backend 0 0 process_start (Object (Missing, Missing, Missing))) =
     Response StatusOK (ProofResponse (encode_public [0]) 0 msg_generated)"
proof -
  have sol: "solves addition_ccs \<lparr>w_public = [to_field 0], w_secret = [to_field 0, to_field 0]\<rparr>"
    by (simp only: solves_addition field_relation_iff) simp
  have pk: "provingKey (initializeKeys mock_backend 0 process_start) = Some BN254_ScalarField"
    by (simp add: mock_started)
  show ?thesis
    using sol pk mock_setup_ok [of 0]
    by (simp add: GenerateProof_def circuit_GenerateProof_eq mock_sel respondWithJSON_def
        Let_def)
qed

lemma decode_field_ok: "\<not> mistyped f \<Longrightarrow> decode_field z f = Inr (field_or z f)"
  by (cases f) simp_all

lemma Decode_ProofRequest_ok:
  "\<not> ill_typed_generate (Object (a, b, c)) \<Longrightarrow>
   Decode_ProofRequest (Object (a, b, c)) =
     Inr \<lparr>req_A = field_or 0 a, req_B = field_or 0 b, req_Sum = field_or 0 c\<rparr>"
  by (simp add: decode_field_ok)

lemma Decode_VerifyRequest_ok:
  "\<not> ill_typed_verify (Object (p, c)) \<Longrightarrow>
   Decode_VerifyRequest (Object (p, c)) =
     Inr \<lparr>vreq_Proof = field_or [] p, vreq_Sum = field_or 0 c\<rparr>"
  by (simp add: decode_field_ok)

lemma GenerateProof_decoded:
  assumes inv: "key_inv be s0"
    and ok: "setupErr (initializeKeys be seed s0) = None"
    and dec: "Decode_ProofRequest g = Inr req"
  shows "\<exists>pl. snd (GenerateProof be seed rnd s0 g) = Response StatusOK pl \<or>
              snd (GenerateProof be seed rnd s0 g) = Response StatusInternalServerError pl"
proof -
  let ?s = "initializeKeys be seed s0"
  have once: "setupOnce ?s" by simp
  from key_inv_initializeKeys [OF inv] once ok obtain pk vk sd where
    pk: "provingKey ?s = Some pk"
    by (rule ready_keys)
  show ?thesis
    using ok dec pk
    by (auto simp add: GenerateProof_def circuit_GenerateProof_eq respondWithError_def
        respondWithJSON_def Let_def split: sum.splits)
qed

lemma VerifyProof_decoded:
  assumes inv: "key_inv be s0"
    and ok: "setupErr (initializeKeys be seed s0) = None"
    and dec: "Decode_VerifyRequest v = Inr req"
  shows "(\<forall>err. proof_ReadFrom be (vreq_Proof req) = Inl err \<longrightarrow>
            VerifyProof be seed s0 v =
              ((initializeKeys be seed s0)
                 \<lparr>logged := logged (initializeKeys be seed s0) @ [VerifyingProof (vreq_Sum req)]\<rparr>,
               Response StatusBadRequest (ErrorJSON ''Invalid proof format''))) \<and>
         (\<forall>pf. proof_ReadFrom be (vreq_Proof req) = Inr pf \<longrightarrow>
            (\<exists>pl. snd (VerifyProof be seed s0 v) = Response StatusOK pl))"
proof -
  let ?s = "initializeKeys be seed s0"
  have once: "setupOnce ?s" by simp
  from key_inv_initializeKeys [OF inv] once ok obtain pk vk sd where
    vk: "verifyingKey ?s = Some vk"
    by (rule ready_keys)
  show ?thesis
    using ok dec vk
    by (auto simp add: VerifyProof_def circuit_VerifyProof_eq respondWithError_def
        respondWithJSON_def Let_def split: option.splits)
qed

lemma mock_ReadFrom_empty: "proof_ReadFrom mock_backend [] = Inl ''unexpected EOF''"
  by (simp add: mock_sel)

section \<open>The claims\<close>

text \<open>
  Claim C1. After a successful setup, for Go integers \<open>a\<close>, \<open>b\<close>, \<open>sum\<close> with
  \<open>a + b = sum\<close> (as integers), \<open>POST /api/proof/generate\<close> answers 200 with proof
  bytes, and \<open>POST /api/proof/verify\<close> with these bytes and the same sum deserializes
  them and answers 200 with \<open>valid: true\<close>, for a backend that meets its contract.
\<close>

theorem prove_verify_roundtrip:
  assumes contract: "groth16_contract be"
    and inv: "key_inv be s0"
    and ok: "setupErr (initializeKeys be seed s0) = None"
    and rel: "sint a + sint b = sint c"
  shows "\<exists>proofBytes s1.
           GenerateProof be seed rnd s0 (Object (Given a, Given b, Given c)) =
             (s1, Response StatusOK (ProofResponse proofBytes c msg_generated)) \<and>
           (\<forall>seed'. snd (VerifyProof be seed' s1 (Object (Given proofBytes, Given c))) =
              Response StatusOK (VerifyResponse True msg_valid))"
proof -
  let ?s = "initializeKeys be seed s0"
  let ?w = "\<lparr>w_public = [to_field c], w_secret = [to_field a, to_field b]\<rparr>"
  have once: "setupOnce ?s" by simp
  from key_inv_initializeKeys [OF inv] once ok obtain pk vk sd where
    pk: "provingKey ?s = Some pk" and vk: "verifyingKey ?s = Some vk"
    and keys: "groth16_Setup be addition_ccs sd = Inr (pk, vk)"
    by (rule ready_keys)
  have sol: "solves addition_ccs ?w"
    using rel by (simp only: solves_addition field_relation_iff)
  from contract_complete [OF contract keys sol, of rnd] obtain pf bs where
    prove: "groth16_Prove be addition_ccs pk ?w rnd = Inr pf"
    and wr: "proof_WriteTo be pf = Inr bs" and rd: "proof_ReadFrom be bs = Inr pf"
    and ver: "\<forall>pw. w_secret pw = [] \<longrightarrow>
           (groth16_Verify be pf vk pw = None) = (w_public pw = w_public ?w)"
    by blast
  let ?s1 = "?s\<lparr>logged := logged ?s @ [GeneratingProof a b c, ProofGenerated]\<rparr>"
  have gen: "GenerateProof be seed rnd s0 (Object (Given a, Given b, Given c)) =
      (?s1, Response StatusOK (ProofResponse bs c msg_generated))"
    by (subst GenerateProof_via_init) (simp add: GenerateProof_ready [OF once ok pk] prove wr)
  have acc: "groth16_Verify be pf vk \<lparr>w_public = [to_field c], w_secret = []\<rparr> = None"
    by (simp add: ver)
  have "snd (VerifyProof be seed' ?s1 (Object (Given bs, Given c))) =
      Response StatusOK (VerifyResponse True msg_valid)" for seed'
    using ok vk by (simp add: VerifyProof_ready [where vk = vk] rd acc)
  with gen show ?thesis by blast
qed

theorem prove_verify_roundtrip_witness:
  "groth16_contract mock_backend \<and> key_inv mock_backend process_start \<and>
   setupErr (initializeKeys mock_backend 0 process_start) = None \<and>
   sint (5 :: go_int) + sint (3 :: go_int) = sint (8 :: go_int) \<and>
   (\<exists>proofBytes s1.
      GenerateProof mock_backend 0 0 process_start (Object (Given 5, Given 3, Given 8)) =
        (s1, Response StatusOK (ProofResponse proofBytes 8 msg_generated)) \<and>
      (\<forall>seed'. snd (VerifyProof mock_backend seed' s1 (Object (Given proofBytes, Given 8))) =
         Response StatusOK (VerifyResponse True msg_valid)))"
proof -
  have rel: "sint (5 :: go_int) + sint (3 :: go_int) = sint (8 :: go_int)" by simp
  from prove_verify_roundtrip [OF mock_contract key_inv_process_start mock_setup_ok [of 0] rel]
  show ?thesis using mock_contract key_inv_process_start mock_setup_ok rel by blast
qed

text \<open>
  Claim C2. For \<open>a\<close>, \<open>b\<close>, \<open>sum\<close> with \<open>a + b \<noteq> sum\<close>, \<open>GenerateProof\<close> answers 500
  "Failed to generate proof". The handler makes no check of its own: the full witness is
  built and handed to the backend's \<open>Prove\<close>, and the failure logged and reported is the
  error that \<open>Prove\<close> returned for it.
\<close>

theorem unsatisfied_relation_fails_in_prove:
  assumes contract: "groth16_contract be"
    and inv: "key_inv be s0"
    and ok: "setupErr (initializeKeys be seed s0) = None"
    and rel: "sint a + sint b \<noteq> sint c"
  shows "\<exists>pk ccs w e.
           provingKey (initializeKeys be seed s0) = Some pk \<and>
           frontend_Compile BN254_ScalarField zero_circuit = Inr ccs \<and>
           frontend_NewWitness \<lparr>A = VInt a, B = VInt b, Sum = VInt c\<rparr> BN254_ScalarField False
             = Inr w \<and>
           groth16_Prove be ccs pk w rnd = Inl e \<and>
           GenerateProof be seed rnd s0 (Object (Given a, Given b, Given c)) =
             ((initializeKeys be seed s0)
                \<lparr>logged := logged (initializeKeys be seed s0) @
                   [GeneratingProof a b c, ProofGenerationFailed e]\<rparr>,
              Response StatusInternalServerError (ErrorJSON ''Failed to generate proof''))"
proof -
  let ?s = "initializeKeys be seed s0"
  let ?w = "\<lparr>w_public = [to_field c], w_secret = [to_field a, to_field b]\<rparr>"
  have once: "setupOnce ?s" by simp
  from key_inv_initializeKeys [OF inv] once ok obtain pk vk sd where
    pk: "provingKey ?s = Some pk" and vk: "verifyingKey ?s = Some vk"
    and keys: "groth16_Setup be addition_ccs sd = Inr (pk, vk)"
    by (rule ready_keys)
  have "\<not> solves addition_ccs ?w"
    using rel by (simp only: solves_addition field_relation_iff not_False_eq_True)
  with contract_refuses [OF contract, of addition_ccs ?w pk rnd]
  obtain e where prove: "groth16_Prove be addition_ccs pk ?w rnd = Inl e"
    by blast
  have "GenerateProof be seed rnd s0 (Object (Given a, Given b, Given c)) =
      (?s\<lparr>logged := logged ?s @ [GeneratingProof a b c, ProofGenerationFailed e]\<rparr>,
       Response StatusInternalServerError (ErrorJSON ''Failed to generate proof''))"
    by (subst GenerateProof_via_init) (simp add: GenerateProof_ready [OF once ok pk] prove)
  with pk prove NewWitness_full [of a b c] Compile_addition show ?thesis by blast
qed

theorem unsatisfied_relation_fails_in_prove_witness:
  "groth16_contract mock_backend \<and> key_inv mock_backend process_start \<and>
   setupErr (initializeKeys mock_backend 0 process_start) = None \<and>
   sint (5 :: go_int) + sint (3 :: go_int) \<noteq> sint (9 :: go_int) \<and>
   snd (GenerateProof mock_backend 0 0 process_start (Object (Given 5, Given 3, Given 9))) =
     Response StatusInternalServerError (ErrorJSON ''Failed to generate proof'')"
proof -
  have rel: "sint (5 :: go_int) + sint (3 :: go_int) \<noteq> sint (9 :: go_int)" by simp
  from unsatisfied_relation_fails_in_prove
    [OF mock_contract key_inv_process_start mock_setup_ok [of 0] rel, where rnd = 0]
  have "snd (GenerateProof mock_backend 0 0 process_start (Object (Given 5, Given 3, Given 9))) =
     Response StatusInternalServerError (ErrorJSON ''Failed to generate proof'')"
    by auto
  then show ?thesis using mock_contract key_inv_process_start mock_setup_ok rel by blast
qed

text \<open>
  Claim C4, as the code has it. For \<open>POST /api/proof/verify\<close>: the answer is 500
  whenever the setup failed, whatever the body. After a successful setup it is 400 when
  the body does not decode and 400 when the proof bytes do not deserialize; otherwise it
  is 200, with \<open>valid: true\<close> when the backend's \<open>Verify\<close> returns \<open>nil\<close> and with
  \<open>valid: false\<close> when it returns any error, a rejected proof and a failure inside the
  verification alike. No failure during verification gives 500.
\<close>

theorem verify_status_codes:
  assumes inv: "key_inv be s0"
  shows "(\<forall>e. setupErr (initializeKeys be seed s0) = Some e \<longrightarrow>
            snd (VerifyProof be seed s0 r) =
              Response StatusInternalServerError (ErrorJSON (''Setup failed: '' @ e))) \<and>
         (setupErr (initializeKeys be seed s0) = None \<longrightarrow>
            (\<forall>err. Decode_VerifyRequest r = Inl err \<longrightarrow>
               snd (VerifyProof be seed s0 r) =
                 Response StatusBadRequest (ErrorJSON ''Invalid request body'')) \<and>
            (\<forall>req. Decode_VerifyRequest r = Inr req \<longrightarrow>
               (\<forall>err. proof_ReadFrom be (vreq_Proof req) = Inl err \<longrightarrow>
                  snd (VerifyProof be seed s0 r) =
                    Response StatusBadRequest (ErrorJSON ''Invalid proof format'')) \<and>
               (\<forall>pf. proof_ReadFrom be (vreq_Proof req) = Inr pf \<longrightarrow>
                  (\<exists>vk. verifyingKey (initializeKeys be seed s0) = Some vk \<and>
                     snd (VerifyProof be seed s0 r) =
                       Response StatusOK
                         (if groth16_Verify be pf vk
                               \<lparr>w_public = [sint (vreq_Sum req) mod BN254_ScalarField],
                                w_secret = []\<rparr> = None
                          then VerifyResponse True msg_valid
                          else VerifyResponse False msg_invalid)))))"
proof (intro conjI allI impI)
  fix e
  assume "setupErr (initializeKeys be seed s0) = Some e"
  then show "snd (VerifyProof be seed s0 r) =
      Response StatusInternalServerError (ErrorJSON (''Setup failed: '' @ e))"
    by (simp add: VerifyProof_def respondWithError_def respondWithJSON_def)
next
  fix err
  assume "setupErr (initializeKeys be seed s0) = None" "Decode_VerifyRequest r = Inl err"
  then show "snd (VerifyProof be seed s0 r) =
      Response StatusBadRequest (ErrorJSON ''Invalid request body'')"
    by (simp add: VerifyProof_def respondWithError_def respondWithJSON_def)
next
  fix req err
  assume "setupErr (initializeKeys be seed s0) = None" "Decode_VerifyRequest r = Inr req"
    "proof_ReadFrom be (vreq_Proof req) = Inl err"
  then show "snd (VerifyProof be seed s0 r) =
      Response StatusBadRequest (ErrorJSON ''Invalid proof format'')"
    by (simp add: VerifyProof_def respondWithError_def respondWithJSON_def Let_def)
next
  fix req pf
  assume ok: "setupErr (initializeKeys be seed s0) = None"
    and dec: "Decode_VerifyRequest r = Inr req"
    and rd: "proof_ReadFrom be (vreq_Proof req) = Inr pf"
  let ?s = "initializeKeys be seed s0"
  have once: "setupOnce ?s" by simp
  from key_inv_initializeKeys [OF inv] once ok obtain pk vk sd where
    vk: "verifyingKey ?s = Some vk"
    by (rule ready_keys)
  have "snd (VerifyProof be seed s0 r) =
      Response StatusOK
        (if groth16_Verify be pf vk
              \<lparr>w_public = [sint (vreq_Sum req) mod BN254_ScalarField], w_secret = []\<rparr> = None
         then VerifyResponse True msg_valid
         else VerifyResponse False msg_invalid)"
    using ok dec rd vk
    by (auto simp add: VerifyProof_def respondWithJSON_def circuit_VerifyProof_eq to_field_def
        Let_def split: option.splits)
  with vk show "\<exists>vk. verifyingKey (initializeKeys be seed s0) = Some vk \<and>
      snd (VerifyProof be seed s0 r) =
        Response StatusOK
          (if groth16_Verify be pf vk
                \<lparr>w_public = [sint (vreq_Sum req) mod BN254_ScalarField], w_secret = []\<rparr> = None
           then VerifyResponse True msg_valid
           else VerifyResponse False msg_invalid)"
    by blast
qed

theorem verify_status_codes_witness:
  "key_inv mock_backend process_start \<and>
   snd (VerifyProof mock_backend 0 process_start (Object (Given (encode_public [8]), Given 8))) =
     Response StatusOK (VerifyResponse True msg_valid) \<and>
   snd (VerifyProof mock_backend 0 process_start (Object (Given (encode_public [8]), Given 9))) =
     Response StatusOK (VerifyResponse False msg_invalid) \<and>
   snd (VerifyProof mock_backend 0 process_start (Object (Given [1, 2, 3], Given 8))) =
     Response StatusBadRequest (ErrorJSON ''Invalid proof format'') \<and>
   snd (VerifyProof mock_backend 0 process_start NotObject) =
     Response StatusBadRequest (ErrorJSON ''Invalid request body'')"
proof -
  note ok = mock_setup_ok [of 0]
  have vk: "verifyingKey (initializeKeys mock_backend 0 process_start) = Some BN254_ScalarField"
    by (simp add: mock_started)
  have fld: "(8 :: int) mod BN254_ScalarField = 8" "(9 :: int) mod BN254_ScalarField = 9"
    by (simp_all add: BN254_ScalarField_def)
  note th = verify_status_codes [OF key_inv_process_start, where be = mock_backend and seed = 0]
  have 1: "snd (VerifyProof mock_backend 0 process_start
                  (Object (Given (encode_public [8]), Given 8))) =
     Response StatusOK (VerifyResponse True msg_valid)"
    using th [of "Object (Given (encode_public [8]), Given 8)"] ok vk
    by (simp add: mock_ReadFrom_encode_one mock_sel(2) fld field_elems_small)
  have 2: "snd (VerifyProof mock_backend 0 process_start
                  (Object (Given (encode_public [8]), Given 9))) =
     Response StatusOK (VerifyResponse False msg_invalid)"
    using th [of "Object (Given (encode_public [8]), Given 9)"] ok vk
    by (simp add: mock_ReadFrom_encode_one mock_sel(2) fld field_elems_small encode_8_9)
  have 3: "snd (VerifyProof mock_backend 0 process_start (Object (Given [1, 2, 3], Given 8))) =
     Response StatusBadRequest (ErrorJSON ''Invalid proof format'')"
    using th [of "Object (Given [1, 2, 3], Given 8)"] ok
    by (simp add: mock_ReadFrom_short)
  have 4: "snd (VerifyProof mock_backend 0 process_start NotObject) =
     Response StatusBadRequest (ErrorJSON ''Invalid request body'')"
    using th [of NotObject] ok by simp
  show ?thesis using key_inv_process_start 1 2 3 4 by blast
qed

text \<open>
  Claim C4 as stated fails. With a backend whose \<open>Verify\<close> breaks down with an internal
  error, the answer to a well-formed proof is 200 with \<open>valid: false\<close>, not 500. A body
  that is not JSON is answered with 400 although no proof bytes failed to deserialize.
  And after a failed setup, proof bytes that do not deserialize are answered with 500,
  not 400.
\<close>

theorem verify_internal_failure_counterexample:
  "groth16_Verify faulty_verify_backend (encode_public [8]) BN254_ScalarField
     \<lparr>w_public = [8], w_secret = []\<rparr> = Some ''internal error'' \<and>
   snd (VerifyProof faulty_verify_backend 0 process_start
          (Object (Given (encode_public [8]), Given 8))) =
     Response StatusOK (VerifyResponse False msg_invalid) \<and>
   snd (VerifyProof mock_backend 0 process_start NotJSON) =
     Response StatusBadRequest (ErrorJSON ''Invalid request body'') \<and>
   proof_ReadFrom failing_setup_backend [1, 2, 3] = Inl ''unexpected EOF'' \<and>
   snd (VerifyProof failing_setup_backend 0 process_start (Object (Given [1, 2, 3], Given 8))) =
     Response StatusInternalServerError (ErrorJSON ''Setup failed: trusted setup failed'')"
proof (intro conjI)
  show "groth16_Verify faulty_verify_backend (encode_public [8]) BN254_ScalarField
     \<lparr>w_public = [8], w_secret = []\<rparr> = Some ''internal error''"
    by (simp add: faulty_sel)
  show "snd (VerifyProof faulty_verify_backend 0 process_start
          (Object (Given (encode_public [8]), Given 8))) =
     Response StatusOK (VerifyResponse False msg_invalid)"
    by (subst VerifyProof_via_init, subst VerifyProof_ready [where vk = BN254_ScalarField])
       (simp_all add: faulty_started faulty_sel mock_ReadFrom_encode_one)
  show "snd (VerifyProof mock_backend 0 process_start NotJSON) =
     Response StatusBadRequest (ErrorJSON ''Invalid request body'')"
    by (simp add: VerifyProof_def mock_setup_ok respondWithError_def respondWithJSON_def)
  show "proof_ReadFrom failing_setup_backend [1, 2, 3] = Inl ''unexpected EOF''"
    by (simp add: failing_sel mock_ReadFrom_short)
  show "snd (VerifyProof failing_setup_backend 0 process_start
          (Object (Given [1, 2, 3], Given 8))) =
     Response StatusInternalServerError (ErrorJSON ''Setup failed: trusted setup failed'')"
    by (simp add: VerifyProof_def failing_started respondWithError_def respondWithJSON_def)
qed

text \<open>
  Claim C5. Once the one-time setup has run, no sequence of requests changes the keys,
  \<open>setupErr\<close> or \<open>setupOnce\<close>, and the setup function is not started again. If the
  setup failed with error \<open>e\<close>, every later generate or verify request is answered with
  500 "Setup failed: e" and leaves the package variables and the log exactly as they
  were.
\<close>

theorem setup_outcome_is_sticky:
  assumes "setupOnce s"
  shows "same_setup s (fst (serve_all be s qs)) \<and>
         (\<forall>e. setupErr s = Some e \<longrightarrow>
            fst (serve_all be s qs) = s \<and>
            list_all2 (setup_failure e) (map fst qs) (snd (serve_all be s qs)))"
  using serve_all_same_setup [OF assms] serve_all_failed_setup [OF assms] by blast

theorem setup_outcome_is_sticky_witness:
  "setupOnce (initializeKeys failing_setup_backend 0 process_start) \<and>
   setupErr (initializeKeys failing_setup_backend 0 process_start) =
     Some ''trusted setup failed'' \<and>
   fst (serve_all failing_setup_backend (initializeKeys failing_setup_backend 0 process_start)
          [(PostGenerate (Object (Given 5, Given 3, Given 8)), 1, 2),
           (PostVerify (Object (Given [1, 2, 3], Given 8)), 3, 4)]) =
     initializeKeys failing_setup_backend 0 process_start \<and>
   snd (serve_all failing_setup_backend (initializeKeys failing_setup_backend 0 process_start)
          [(PostGenerate (Object (Given 5, Given 3, Given 8)), 1, 2),
           (PostVerify (Object (Given [1, 2, 3], Given 8)), 3, 4)]) =
     [Response StatusInternalServerError (ErrorJSON ''Setup failed: trusted setup failed''),
      Response StatusInternalServerError (ErrorJSON ''Setup failed: trusted setup failed'')] \<and>
   setupOnce (initializeKeys mock_backend 0 process_start) \<and>
   same_setup (initializeKeys mock_backend 0 process_start)
     (fst (serve_all mock_backend (initializeKeys mock_backend 0 process_start)
          [(PostGenerate (Object (Given 5, Given 3, Given 8)), 1, 2),
           (PostVerify (Object (Given [1, 2, 3], Given 8)), 3, 4)]))"
proof -
  let ?f = "initializeKeys failing_setup_backend 0 process_start"
  let ?qs = "[(PostGenerate (Object (Given 5, Given 3, Given 8)), 1, 2),
              (PostVerify (Object (Given [1, 2, 3], Given 8)), 3 :: nat, 4 :: nat)]"
  have once: "setupOnce ?f" by simp
  have err: "setupErr ?f = Some ''trusted setup failed''" by (simp add: failing_started)
  from setup_outcome_is_sticky [OF once, of failing_setup_backend ?qs] err
  have st: "fst (serve_all failing_setup_backend ?f ?qs) = ?f"
    and outs: "list_all2 (setup_failure ''trusted setup failed'') (map fst ?qs)
                 (snd (serve_all failing_setup_backend ?f ?qs))"
    by blast+
  from outs have "snd (serve_all failing_setup_backend ?f ?qs) =
     [Response StatusInternalServerError (ErrorJSON ''Setup failed: trusted setup failed''),
      Response StatusInternalServerError (ErrorJSON ''Setup failed: trusted setup failed'')]"
    by (auto simp: list_all2_Cons1 setup_failure_def)
  moreover have once': "setupOnce (initializeKeys mock_backend 0 process_start)" by simp
  moreover from setup_outcome_is_sticky [OF once', of mock_backend ?qs]
  have "same_setup (initializeKeys mock_backend 0 process_start)
     (fst (serve_all mock_backend (initializeKeys mock_backend 0 process_start) ?qs))"
    by blast
  ultimately show ?thesis using once err st by blast
qed

text \<open>
  Claim C7. Sum binding: proof bytes that \<open>GenerateProof\<close> returned for a public sum,
  verified against any other sum, give 200 with \<open>valid: false\<close>, not an error.
\<close>

theorem sum_binding:
  assumes contract: "groth16_contract be"
    and inv: "key_inv be s0"
    and ok: "setupErr (initializeKeys be seed s0) = None"
    and gen: "GenerateProof be seed rnd s0 (Object (Given a, Given b, Given c)) =
                (s1, Response StatusOK (ProofResponse proofBytes c' m))"
    and other: "c2 \<noteq> c"
  shows "snd (VerifyProof be seed' s1 (Object (Given proofBytes, Given c2))) =
           Response StatusOK (VerifyResponse False msg_invalid)"
proof -
  let ?s = "initializeKeys be seed s0"
  let ?w = "\<lparr>w_public = [to_field c], w_secret = [to_field a, to_field b]\<rparr>"
  have once: "setupOnce ?s" by simp
  from key_inv_initializeKeys [OF inv] once ok obtain pk vk sd where
    pk: "provingKey ?s = Some pk" and vk: "verifyingKey ?s = Some vk"
    and keys: "groth16_Setup be addition_ccs sd = Inr (pk, vk)"
    by (rule ready_keys)
  have gen': "GenerateProof be seed rnd ?s (Object (Given a, Given b, Given c)) =
                (s1, Response StatusOK (ProofResponse proofBytes c' m))"
    using gen by (subst (asm) GenerateProof_via_init)
  have sol: "solves addition_ccs ?w"
  proof (rule ccontr)
    assume "\<not> solves addition_ccs ?w"
    with contract_refuses [OF contract, of addition_ccs ?w pk rnd]
    obtain e where "groth16_Prove be addition_ccs pk ?w rnd = Inl e"
      by blast
    with gen' show False by (simp add: GenerateProof_ready [OF once ok pk])
  qed
  from contract_complete [OF contract keys sol, of rnd] obtain pf bs where
    prove: "groth16_Prove be addition_ccs pk ?w rnd = Inr pf"
    and wr: "proof_WriteTo be pf = Inr bs" and rd: "proof_ReadFrom be bs = Inr pf"
    and ver: "\<forall>pw. w_secret pw = [] \<longrightarrow>
           (groth16_Verify be pf vk pw = None) = (w_public pw = w_public ?w)"
    by blast
  from gen' have s1: "s1 = ?s\<lparr>logged := logged ?s @ [GeneratingProof a b c, ProofGenerated]\<rparr>"
    and bs: "proofBytes = bs"
    by (auto simp add: GenerateProof_ready [OF once ok pk] prove wr)
  have "groth16_Verify be pf vk \<lparr>w_public = [to_field c2], w_secret = []\<rparr> \<noteq> None"
    using other by (simp add: ver to_field_inj)
  then obtain e where rej:
    "groth16_Verify be pf vk \<lparr>w_public = [to_field c2], w_secret = []\<rparr> = Some e"
    by blast
  show ?thesis
    unfolding s1 bs using ok vk by (simp add: VerifyProof_ready [where vk = vk] rd rej)
qed

theorem sum_binding_witness:
  "groth16_contract mock_backend \<and> key_inv mock_backend process_start \<and>
   setupErr (initializeKeys mock_backend 0 process_start) = None \<and>
   (9 :: go_int) \<noteq> 8 \<and>
   snd (VerifyProof mock_backend 0
          (fst (GenerateProof mock_backend 0 0 process_start (Object (Given 5, Given 3, Given 8))))
          (Object (Given (encode_public [8]), Given 9))) =
     Response StatusOK (VerifyResponse False msg_invalid)"
proof -
  have ne: "(9 :: go_int) \<noteq> 8" by simp
  have gen: "GenerateProof mock_backend 0 0 process_start (Object (Given 5, Given 3, Given 8)) =
     (fst (GenerateProof mock_backend 0 0 process_start (Object (Given 5, Given 3, Given 8))),
      Response StatusOK (ProofResponse (encode_public [8]) 8 msg_generated))"
    by (simp add: mock_generate_5_3_8)
  from sum_binding [OF mock_contract key_inv_process_start mock_setup_ok [of 0] gen ne]
  show ?thesis using mock_contract key_inv_process_start mock_setup_ok ne by blast
qed

text \<open>
  Claim C8, as the code has it. After a successful setup, a body that is not JSON, is not
  an object, or has a member of the wrong type for \<open>a\<close>, \<open>b\<close>, \<open>sum\<close> or \<open>proof\<close> is
  answered with 400 "Invalid request body" by both handlers, and nothing happens beyond the
  one-time setup. Every other body is decoded, an absent member leaving its field at the
  zero value. An absent \<open>a\<close>, \<open>b\<close> or \<open>sum\<close> is not rejected: the generate handler
  goes on to prove and answers 200 or 500, never 400. An absent \<open>proof\<close> is the empty
  byte sequence, which the handler logs and hands to the backend's \<open>ReadFrom\<close> like any
  other: the answer is 400 "Invalid proof format" when \<open>ReadFrom\<close> refuses it, and 200
  otherwise. After a failed setup both handlers answer 500, whatever the body.
\<close>

theorem ill_typed_body_rejected:
  assumes inv: "key_inv be s0"
  shows "(\<forall>e. setupErr (initializeKeys be seed s0) = Some e \<longrightarrow>
            GenerateProof be seed rnd s0 g =
              (initializeKeys be seed s0,
               Response StatusInternalServerError (ErrorJSON (''Setup failed: '' @ e))) \<and>
            VerifyProof be seed s0 v =
              (initializeKeys be seed s0,
               Response StatusInternalServerError (ErrorJSON (''Setup failed: '' @ e)))) \<and>
         (setupErr (initializeKeys be seed s0) = None \<longrightarrow>
            (ill_typed_generate g \<longrightarrow>
               GenerateProof be seed rnd s0 g =
                 (initializeKeys be seed s0,
                  Response StatusBadRequest (ErrorJSON ''Invalid request body''))) \<and>
            (ill_typed_verify v \<longrightarrow>
               VerifyProof be seed s0 v =
                 (initializeKeys be seed s0,
                  Response StatusBadRequest (ErrorJSON ''Invalid request body''))) \<and>
            (\<forall>a b c. g = Object (a, b, c) \<and> \<not> ill_typed_generate g \<longrightarrow>
               Decode_ProofRequest g =
                 Inr \<lparr>req_A = field_or 0 a, req_B = field_or 0 b, req_Sum = field_or 0 c\<rparr> \<and>
               (\<exists>pl. snd (GenerateProof be seed rnd s0 g) = Response StatusOK pl \<or>
                     snd (GenerateProof be seed rnd s0 g) =
                       Response StatusInternalServerError pl)) \<and>
            (\<forall>p c. v = Object (p, c) \<and> \<not> ill_typed_verify v \<longrightarrow>
               Decode_VerifyRequest v =
                 Inr \<lparr>vreq_Proof = field_or [] p, vreq_Sum = field_or 0 c\<rparr> \<and>
               (\<forall>err. proof_ReadFrom be (field_or [] p) = Inl err \<longrightarrow>
                  VerifyProof be seed s0 v =
                    ((initializeKeys be seed s0)
                       \<lparr>logged := logged (initializeKeys be seed s0) @
                          [VerifyingProof (field_or 0 c)]\<rparr>,
                     Response StatusBadRequest (ErrorJSON ''Invalid proof format''))) \<and>
               (\<forall>pf. proof_ReadFrom be (field_or [] p) = Inr pf \<longrightarrow>
                  (\<exists>pl. snd (VerifyProof be seed s0 v) = Response StatusOK pl))))"
proof (intro conjI allI impI)
  fix e
  assume "setupErr (initializeKeys be seed s0) = Some e"
  then show "GenerateProof be seed rnd s0 g =
      (initializeKeys be seed s0,
       Response StatusInternalServerError (ErrorJSON (''Setup failed: '' @ e)))"
    and "VerifyProof be seed s0 v =
      (initializeKeys be seed s0,
       Response StatusInternalServerError (ErrorJSON (''Setup failed: '' @ e)))"
    by (simp_all add: GenerateProof_def VerifyProof_def respondWithError_def
        respondWithJSON_def)
next
  assume ok: "setupErr (initializeKeys be seed s0) = None" and "ill_typed_generate g"
  then obtain e where "Decode_ProofRequest g = Inl e"
    using Decode_ProofRequest_Inl [of g] by blast
  then show "GenerateProof be seed rnd s0 g =
      (initializeKeys be seed s0, Response StatusBadRequest (ErrorJSON ''Invalid request body''))"
    using ok by (simp add: GenerateProof_def respondWithError_def respondWithJSON_def)
next
  assume ok: "setupErr (initializeKeys be seed s0) = None" and "ill_typed_verify v"
  then obtain e where "Decode_VerifyRequest v = Inl e"
    using Decode_VerifyRequest_Inl [of v] by blast
  then show "VerifyProof be seed s0 v =
      (initializeKeys be seed s0, Response StatusBadRequest (ErrorJSON ''Invalid request body''))"
    using ok by (simp add: VerifyProof_def respondWithError_def respondWithJSON_def)
next
  fix a b c
  assume ok: "setupErr (initializeKeys be seed s0) = None"
    and g: "g = Object (a, b, c) \<and> \<not> ill_typed_generate g"
  then have "\<not> ill_typed_generate (Object (a, b, c))" by blast
  from Decode_ProofRequest_ok [OF this] g
  show dec: "Decode_ProofRequest g =
      Inr \<lparr>req_A = field_or 0 a, req_B = field_or 0 b, req_Sum = field_or 0 c\<rparr>"
    by blast
  from GenerateProof_decoded [OF inv ok dec]
  show "\<exists>pl. snd (GenerateProof be seed rnd s0 g) = Response StatusOK pl \<or>
             snd (GenerateProof be seed rnd s0 g) = Response StatusInternalServerError pl" .
next
  fix p c
  assume ok: "setupErr (initializeKeys be seed s0) = None"
    and v: "v = Object (p, c) \<and> \<not> ill_typed_verify v"
  then have "\<not> ill_typed_verify (Object (p, c))" by blast
  from Decode_VerifyRequest_ok [OF this] v
  show dec: "Decode_VerifyRequest v =
      Inr \<lparr>vreq_Proof = field_or [] p, vreq_Sum = field_or 0 c\<rparr>"
    by blast
  note vd = VerifyProof_decoded [OF inv ok dec, simplified]
  {
    fix err
    assume "proof_ReadFrom be (field_or [] p) = Inl err"
    with vd show "VerifyProof be seed s0 v =
        ((initializeKeys be seed s0)
           \<lparr>logged := logged (initializeKeys be seed s0) @ [VerifyingProof (field_or 0 c)]\<rparr>,
         Response StatusBadRequest (ErrorJSON ''Invalid proof format''))"
      by blast
  }
  {
    fix pf
    assume "proof_ReadFrom be (field_or [] p) = Inr pf"
    with vd show "\<exists>pl. snd (VerifyProof be seed s0 v) = Response StatusOK pl"
      by blast
  }
qed

theorem ill_typed_body_rejected_witness:
  "key_inv mock_backend process_start \<and>
   setupErr (initializeKeys mock_backend 0 process_start) = None \<and>
   GenerateProof mock_backend 0 0 process_start (Object (Given 5, Mistyped, Given 8)) =
     (initializeKeys mock_backend 0 process_start,
      Response StatusBadRequest (ErrorJSON ''Invalid request body'')) \<and>
   VerifyProof mock_backend 0 process_start (Object (Mistyped, Given 8)) =
     (initializeKeys mock_backend 0 process_start,
      Response StatusBadRequest (ErrorJSON ''Invalid request body'')) \<and>
   Decode_ProofRequest (Object (Missing, Given 3, Missing)) =
     Inr \<lparr>req_A = 0, req_B = 3, req_Sum = 0\<rparr> \<and>
   (\<exists>pl. snd (GenerateProof mock_backend 0 0 process_start
                 (Object (Missing, Given 3, Missing))) = Response StatusOK pl \<or>
         snd (GenerateProof mock_backend 0 0 process_start
                 (Object (Missing, Given 3, Missing))) = Response StatusInternalServerError pl) \<and>
   proof_ReadFrom mock_backend [] = Inl ''unexpected EOF'' \<and>
   snd (VerifyProof mock_backend 0 process_start (Object (Missing, Given 8))) =
     Response StatusBadRequest (ErrorJSON ''Invalid proof format'') \<and>
   key_inv failing_setup_backend process_start \<and>
   setupErr (initializeKeys failing_setup_backend 0 process_start) =
     Some ''trusted setup failed'' \<and>
   snd (GenerateProof failing_setup_backend 0 0 process_start NotJSON) =
     Response StatusInternalServerError (ErrorJSON ''Setup failed: trusted setup failed'')"
proof -
  note ok = mock_setup_ok [of 0]
  have bad: "setupErr (initializeKeys failing_setup_backend 0 process_start) =
      Some ''trusted setup failed''"
    by (simp add: failing_started)
  note t1 = ill_typed_body_rejected [OF key_inv_process_start,
      where be = mock_backend and seed = 0 and rnd = 0
        and g = "Object (Given 5, Mistyped, Given 8)" and v = "Object (Mistyped, Given 8)"]
  note t2 = ill_typed_body_rejected [OF key_inv_process_start,
      where be = mock_backend and seed = 0 and rnd = 0
        and g = "Object (Missing, Given 3, Missing)" and v = "Object (Missing, Given 8)"]
  note t3 = ill_typed_body_rejected [OF key_inv_process_start,
      where be = failing_setup_backend and seed = 0 and rnd = 0
        and g = NotJSON and v = NotJSON]
  have 1: "GenerateProof mock_backend 0 0 process_start (Object (Given 5, Mistyped, Given 8)) =
     (initializeKeys mock_backend 0 process_start,
      Response StatusBadRequest (ErrorJSON ''Invalid request body''))"
    and 2: "VerifyProof mock_backend 0 process_start (Object (Mistyped, Given 8)) =
     (initializeKeys mock_backend 0 process_start,
      Response StatusBadRequest (ErrorJSON ''Invalid request body''))"
    using t1 ok by simp_all
  have 3: "Decode_ProofRequest (Object (Missing, Given 3, Missing)) =
     Inr \<lparr>req_A = 0, req_B = 3, req_Sum = 0\<rparr>"
    and 4: "\<exists>pl. snd (GenerateProof mock_backend 0 0 process_start
                 (Object (Missing, Given 3, Missing))) = Response StatusOK pl \<or>
         snd (GenerateProof mock_backend 0 0 process_start
                 (Object (Missing, Given 3, Missing))) = Response StatusInternalServerError pl"
    using t2 ok by simp_all
  have 5: "snd (VerifyProof mock_backend 0 process_start (Object (Missing, Given 8))) =
     Response StatusBadRequest (ErrorJSON ''Invalid proof format'')"
    using t2 ok by (simp add: mock_ReadFrom_empty)
  have 6: "snd (GenerateProof failing_setup_backend 0 0 process_start NotJSON) =
     Response StatusInternalServerError (ErrorJSON ''Setup failed: trusted setup failed'')"
    using t3 bad by simp
  show ?thesis
    using key_inv_process_start ok bad 1 2 3 4 5 6 mock_ReadFrom_empty by blast
qed

text \<open>
  Claim C8 as stated fails. A generate request whose body is the empty object is decoded
  as \<open>a = b = sum = 0\<close>, proved by the backend and answered with 200; a verify request
  without \<open>sum\<close> is verified against the sum \<open>0\<close> and answered with 200. A verify
  request without \<open>proof\<close> is answered with 400, but by the backend's deserializer, after
  the request was accepted and logged, not as a malformed request. After a failed setup a
  body that is not JSON is answered with 500. And the first request runs the backend's
  setup before it looks at its body.
\<close>

theorem absent_fields_counterexample:
  "snd (GenerateProof mock_backend 0 0 process_start (Object (Missing, Missing, Missing))) =
     Response StatusOK (ProofResponse (encode_public [0]) 0 msg_generated) \<and>
   snd (VerifyProof mock_backend 0 process_start
          (Object (Given (encode_public [0]), Missing))) =
     Response StatusOK (VerifyResponse True msg_valid) \<and>
   VerifyProof mock_backend 0 process_start (Object (Missing, Given 8)) =
     ((initializeKeys mock_backend 0 process_start)
        \<lparr>logged := [SetupStarting, SetupComplete, VerifyingProof 8]\<rparr>,
      Response StatusBadRequest (ErrorJSON ''Invalid proof format'')) \<and>
   snd (GenerateProof failing_setup_backend 0 0 process_start NotJSON) =
     Response StatusInternalServerError (ErrorJSON ''Setup failed: trusted setup failed'') \<and>
   logged (fst (GenerateProof mock_backend 0 0 process_start NotJSON)) =
     [SetupStarting, SetupComplete]"
proof (intro conjI)
  show "snd (GenerateProof mock_backend 0 0 process_start (Object (Missing, Missing, Missing))) =
     Response StatusOK (ProofResponse (encode_public [0]) 0 msg_generated)"
    by (rule mock_generate_zero)
  have vk: "verifyingKey (initializeKeys mock_backend 0 process_start) = Some BN254_ScalarField"
    by (simp add: mock_started)
  have fe: "field_elems BN254_ScalarField [0]"
    by (simp add: field_elems_def BN254_ScalarField_def)
  show "snd (VerifyProof mock_backend 0 process_start
          (Object (Given (encode_public [0]), Missing))) =
     Response StatusOK (VerifyResponse True msg_valid)"
    using vk mock_setup_ok [of 0] fe
    by (simp add: VerifyProof_def circuit_VerifyProof_eq mock_sel respondWithJSON_def
        length_encode_one encode_one_not_Nil to_field_0 Let_def)
  show "VerifyProof mock_backend 0 process_start (Object (Missing, Given 8)) =
     ((initializeKeys mock_backend 0 process_start)
        \<lparr>logged := [SetupStarting, SetupComplete, VerifyingProof 8]\<rparr>,
      Response StatusBadRequest (ErrorJSON ''Invalid proof format''))"
    by (simp add: VerifyProof_def mock_started mock_ReadFrom_empty respondWithError_def
        respondWithJSON_def)
  show "snd (GenerateProof failing_setup_backend 0 0 process_start NotJSON) =
     Response StatusInternalServerError (ErrorJSON ''Setup failed: trusted setup failed'')"
    by (simp add: GenerateProof_def failing_started respondWithError_def respondWithJSON_def)
  show "logged (fst (GenerateProof mock_backend 0 0 process_start NotJSON)) =
     [SetupStarting, SetupComplete]"
    by (simp add: GenerateProof_def mock_started respondWithError_def respondWithJSON_def)
qed



text \<open>
  Claim C10. The inputs are taken into the scalar field of BN254 before proving: the
  witness holds \<open>a\<close>, \<open>b\<close> and \<open>sum\<close> modulo the field order, and it solves the compiled
  constraint system exactly when \<open>A + B = Sum\<close> holds in the field. So
  \<open>GenerateProof(-1, 1, 0)\<close> succeeds, while \<open>a = MaxInt64\<close>, \<open>b = 1\<close>,
  \<open>sum = MinInt64\<close>, where \<open>a + b = sum\<close> holds for Go's wrapping \<open>int\<close>, fails in
  \<open>Prove\<close>.
\<close>

theorem inputs_are_field_elements:
  assumes contract: "groth16_contract be"
    and inv: "key_inv be s0"
    and ok: "setupErr (initializeKeys be seed s0) = None"
  shows "(\<forall>a b c. \<exists>ccs w.
            frontend_Compile BN254_ScalarField zero_circuit = Inr ccs \<and>
            frontend_NewWitness \<lparr>A = VInt a, B = VInt b, Sum = VInt c\<rparr>
              BN254_ScalarField False = Inr w \<and>
            w = \<lparr>w_public = [sint c mod BN254_ScalarField],
                 w_secret = [sint a mod BN254_ScalarField, sint b mod BN254_ScalarField]\<rparr> \<and>
            (solves ccs w \<longleftrightarrow>
               (sint a mod BN254_ScalarField + sint b mod BN254_ScalarField)
                  mod BN254_ScalarField = sint c mod BN254_ScalarField)) \<and>
         (\<exists>bs. snd (GenerateProof be seed rnd s0 (Object (Given (- 1), Given 1, Given 0))) =
                 Response StatusOK (ProofResponse bs 0 msg_generated)) \<and>
         (9223372036854775807 :: go_int) + 1 = - 9223372036854775808 \<and>
         snd (GenerateProof be seed rnd s0
                (Object (Given 9223372036854775807, Given 1, Given (- 9223372036854775808)))) =
           Response StatusInternalServerError (ErrorJSON ''Failed to generate proof'')"
proof (intro conjI allI)
  fix a b c
  show "\<exists>ccs w.
            frontend_Compile BN254_ScalarField zero_circuit = Inr ccs \<and>
            frontend_NewWitness \<lparr>A = VInt a, B = VInt b, Sum = VInt c\<rparr>
              BN254_ScalarField False = Inr w \<and>
            w = \<lparr>w_public = [sint c mod BN254_ScalarField],
                 w_secret = [sint a mod BN254_ScalarField, sint b mod BN254_ScalarField]\<rparr> \<and>
            (solves ccs w \<longleftrightarrow>
               (sint a mod BN254_ScalarField + sint b mod BN254_ScalarField)
                  mod BN254_ScalarField = sint c mod BN254_ScalarField)"
    using Compile_addition NewWitness_full [of a b c] solves_addition [of c a b]
    by (simp add: to_field_def)
next
  show "\<exists>bs. snd (GenerateProof be seed rnd s0 (Object (Given (- 1), Given 1, Given 0))) =
                 Response StatusOK (ProofResponse bs 0 msg_generated)"
    using contract inv ok negative_example by (rule generate_ok)
next
  show "(9223372036854775807 :: go_int) + 1 = - 9223372036854775808"
    by (rule overflow_example)
next
  show "snd (GenerateProof be seed rnd s0
                (Object (Given 9223372036854775807, Given 1, Given (- 9223372036854775808)))) =
           Response StatusInternalServerError (ErrorJSON ''Failed to generate proof'')"
    using contract inv ok overflow_example(2) by (rule generate_refused)
qed

theorem inputs_are_field_elements_witness:
  "groth16_contract mock_backend \<and> key_inv mock_backend process_start \<and>
   setupErr (initializeKeys mock_backend 0 process_start) = None \<and>
   (\<exists>bs. snd (GenerateProof mock_backend 0 0 process_start
                 (Object (Given (- 1), Given 1, Given 0))) =
           Response StatusOK (ProofResponse bs 0 msg_generated)) \<and>
   snd (GenerateProof mock_backend 0 0 process_start
          (Object (Given 9223372036854775807, Given 1, Given (- 9223372036854775808)))) =
     Response StatusInternalServerError (ErrorJSON ''Failed to generate proof'')"
  using inputs_are_field_elements
      [OF mock_contract key_inv_process_start mock_setup_ok [of 0], where rnd = 0]
    mock_contract key_inv_process_start mock_setup_ok [of 0]
  by blast

end
